theory Spec2Isabelle
  imports Main
begin

section \<open>The UNKLINE module of ircd-hybrid (modules/m\_unkline.c)\<close>

text \<open>
  The module removes a K-line (a ban on a user@host mask) from the local table and
  propagates the request to other servers. It is one C file with four functions:
  \<open>kline_remove\<close>, \<open>kline_remove_and_notify\<close>, the operator handler
  \<open>mo_unkline\<close> and the server handler \<open>ms_unkline\<close>. They are embedded below as
  functions on an explicit daemon state. Everything they send or log is appended, in
  the order of the calls, to the trace \<open>sent\<close> of that state.

  The functions the module calls but does not define (\<open>match\<close>,
  \<open>find_conf_by_address\<close>, \<open>delete_one_address_conf\<close>, \<open>shared_find\<close>,
  \<open>sendto_match_servs\<close>, \<open>cluster_distribute\<close>) follow the specification of the
  subsystem, and so does the tokenizer that hands the handlers their parameters;
  \<open>parse_netmask\<close>, \<open>parse_aline\<close> and \<open>get_oper_name\<close>, of which the
  specification fixes nothing the module depends on, are parameters.
\<close>

subsection \<open>Data\<close>

text \<open>A ban record (\<open>struct MaskItem\<close> of type \<open>CONF_KLINE\<close>, with its fields
  \<open>user\<close> and \<open>host\<close>). The origin is what
  \<open>IsConfDatabase\<close> reads: \<open>Runtime\<close> for a record of the ban database, \<open>Static\<close> for
  one loaded from the configuration file.\<close>

datatype conf_origin = Static | Runtime

record MaskItem =
  conf_user :: string
  conf_host :: string
  origin :: conf_origin

datatype conf_type = CONF_KLINE

definition IsConfDatabase :: "MaskItem \<Rightarrow> bool" where
  "IsConfDatabase conf = (origin conf = Runtime)"

text \<open>A shared \<open>{}\<close> entry of the configuration (the trust grant of the specification).\<close>

datatype shared_type = SHARED_KLINE | SHARED_UNKLINE

record SharedItem =
  shared_server :: string
  shared_user :: string
  shared_host :: string
  shared_actions :: "shared_type set"

text \<open>A directly connected server.\<close>

datatype capab = CAPAB_UNKLN | CAPAB_KLN

datatype cluster_type = CLUSTER_KLINE | CLUSTER_UNKLINE

record Server =
  serv_name :: string
  capabilities :: "capab set"
  isClusterLink :: bool

text \<open>A client (\<open>struct Client\<close>): a user or a server, local or remote. \<open>from_link\<close> is
  the directly connected server through which a remote client is reached (the field
  \<open>from\<close>); it is \<open>None\<close> for a client connected to this server.\<close>

datatype client_status = STAT_CLIENT | STAT_SERVER

datatype client_flag = FLAGS_SERVICE

datatype oper_flag = OPER_FLAG_UNKLINE | OPER_FLAG_KLINE

record Client =
  name :: string
  username :: string
  host :: string
  servptr_name :: string
  status :: client_status
  flags :: "client_flag set"
  oflags :: "oper_flag set"
  from_link :: "string option"

text \<open>The macros of client.h, which is not among the sources. \<open>IsClient\<close> tells a user
  from a server by the status of the client; it says nothing of where the client is
  connected, and the handlers describe their \<open>source_p\<close> as ``a local or remote client''.
  \<open>MyConnect\<close> and \<open>MyClient\<close> are the tests for a client connected to this server;
  the module does not use them.\<close>

definition IsClient :: "Client \<Rightarrow> bool" where
  "IsClient x = (status x = STAT_CLIENT)"

definition MyConnect :: "Client \<Rightarrow> bool" where
  "MyConnect x = (from_link x = None)"

definition MyClient :: "Client \<Rightarrow> bool" where
  "MyClient x = (MyConnect x \<and> IsClient x)"

definition HasFlag :: "Client \<Rightarrow> client_flag \<Rightarrow> bool" where
  "HasFlag x f = (f \<in> flags x)"

definition HasOFlag :: "Client \<Rightarrow> oper_flag \<Rightarrow> bool" where
  "HasOFlag x f = (f \<in> oflags x)"

text \<open>The parsed request (\<open>struct aline_ctx\<close>). The three strings are C pointers and
  may be \<open>NULL\<close>. The field \<open>host\<close> of the C structure is \<open>host_mask\<close> here, as
  \<open>host\<close> is the host of a client.\<close>

record aline_ctx =
  add :: bool
  simple_mask :: bool
  user :: "string option"
  host_mask :: "string option"
  server :: "string option"

text \<open>A \<open>%s\<close> argument: the handlers never print a \<open>NULL\<close> field (the operator
  handler prints what \<open>parse_aline\<close> filled in, the server handler prints after it has
  checked that there are four parameters).\<close>

fun cstr :: "string option \<Rightarrow> string" where
  "cstr None = []"
| "cstr (Some s) = s"

fun EmptyString :: "string option \<Rightarrow> bool" where
  "EmptyString None = True"
| "EmptyString (Some s) = (s = [])"

text \<open>\<open>parv[i]\<close>: the parameters are the list \<open>parv\<close>, and \<open>parc\<close> is its length
  (\<open>parv[0] .. parv[parc-1]\<close> are non-NULL pointers; \<open>parv[parc]\<close> is \<open>NULL\<close>).\<close>

definition parv_at :: "string list \<Rightarrow> nat \<Rightarrow> string option" where
  "parv_at parv i = (if i < length parv then Some (parv ! i) else None)"

subsection \<open>What the daemon sends and logs\<close>

datatype numeric = ERR_NOPRIVS | ERR_NEEDMOREPARAMS

datatype umode = UMODE_SERVNOTICE

datatype oper_level = L_ALL

datatype notice_type = SEND_NOTICE

datatype log_type = LOG_TYPE_KLINE

text \<open>An event for a line to a server records the fields of the line, the command
  first: the format \<open>UNKLINE %s %s %s\<close> with its three arguments is the list of
  \<open>UNKLINE\<close> and the three arguments. The text of the line, and the parameters that
  the receiving server reads from that text, are \<open>wire_line\<close> and \<open>tokenize\<close> below.\<close>

datatype event =
    to_server string "string list"
  | to_cluster string string "string list"
  | one_numeric string numeric string
  | one_notice string string
  | realops_notice umode oper_level notice_type string
  | log_entry log_type string

record ircd =
  me_name :: string
  klines :: "MaskItem list"
  shared_list :: "SharedItem list"
  servers :: "Server list"
  sent :: "event list"

definition emit :: "event list \<Rightarrow> ircd \<Rightarrow> ircd" where
  "emit es s = s\<lparr>sent := sent s @ es\<rparr>"

definition sendto_one_numeric :: "Client \<Rightarrow> numeric \<Rightarrow> string \<Rightarrow> ircd \<Rightarrow> ircd" where
  "sendto_one_numeric to n arg s = emit [one_numeric (name to) n arg] s"

definition sendto_one_notice :: "Client \<Rightarrow> string \<Rightarrow> ircd \<Rightarrow> ircd" where
  "sendto_one_notice to line s = emit [one_notice (name to) line] s"

definition sendto_realops_flags ::
  "umode \<Rightarrow> oper_level \<Rightarrow> notice_type \<Rightarrow> string \<Rightarrow> ircd \<Rightarrow> ircd" where
  "sendto_realops_flags m l t line s = emit [realops_notice m l t line] s"

definition ilog :: "log_type \<Rightarrow> string \<Rightarrow> ircd \<Rightarrow> ircd" where
  "ilog t line s = emit [log_entry t line] s"

subsection \<open>The mask matcher\<close>

fun ToLower :: "char \<Rightarrow> char" where
  "ToLower c =
     (let n = (of_char c :: nat) in if 65 \<le> n \<and> n \<le> 90 then char_of (n + 32) else c)"

text \<open>Modelled from the spec: \<open>match\<close> (match.c) is not among the sources. Section 4.1:
  a case-insensitive glob match supporting \<open>*\<close> and \<open>?\<close>.\<close>

fun match_glob :: "string \<Rightarrow> string \<Rightarrow> bool" where
  "match_glob [] [] = True"
| "match_glob [] (c # cs) = False"
| "match_glob (m # ms) [] = (m = CHR ''*'' \<and> match_glob ms [])"
| "match_glob (m # ms) (c # cs) =
     (if m = CHR ''*'' then match_glob ms (c # cs) \<or> match_glob (m # ms) cs
      else (m = CHR ''?'' \<or> ToLower m = ToLower c) \<and> match_glob ms cs)"

text \<open>Modelled from the spec: the C \<open>match\<close> returns an \<open>int\<close>. Both handlers return
  before the local removal when it is non-zero, under the comment ``Allow ON to apply
  local unkline as well if it matches'', and the specification applies the removal
  locally when the local name matches the target: zero is a match.\<close>

definition match :: "string \<Rightarrow> string \<Rightarrow> int" where
  "match pat nm = (if match_glob pat nm then 0 else 1)"

subsection \<open>The ban table\<close>

datatype hm_type = HM_HOST | HM_IPV4 | HM_IPV6

type_synonym irc_ssaddr = "nat list"

text \<open>Modelled from the spec: \<open>find_conf_by_address\<close> (hostmask.c) is not among the
  sources. Section 4.2, \<open>find\<close>: an exact-pattern lookup (not an address-overlap lookup)
  of the record with this user pattern and this host pattern. The parsed address and
  the two last arguments of the C call (\<open>NULL\<close>, \<open>0\<close>) play no part in it.\<close>

definition find_conf_by_address ::
  "MaskItem list \<Rightarrow> string \<Rightarrow> irc_ssaddr option \<Rightarrow> conf_type \<Rightarrow> string \<Rightarrow> MaskItem option" where
  "find_conf_by_address tbl h piphost t u =
     List.find (\<lambda>conf. conf_user conf = u \<and> conf_host conf = h) tbl"

text \<open>Modelled from the spec: \<open>delete_one_address_conf\<close> (hostmask.c) is not among
  the sources. Section 4.2, \<open>remove\<close>: the matched record is deleted; section 3: a
  record is never partially mutated, and nothing else is destroyed.\<close>

definition delete_one_address_conf :: "string \<Rightarrow> MaskItem \<Rightarrow> ircd \<Rightarrow> ircd" where
  "delete_one_address_conf h conf s = s\<lparr>klines := remove1 conf (klines s)\<rparr>"

text \<open>The invariant of the table (section 3): no two records have the same
  (user pattern, host pattern) pair.\<close>

definition conf_key :: "MaskItem \<Rightarrow> string \<times> string" where
  "conf_key conf = (conf_user conf, conf_host conf)"

definition klines_ok :: "ircd \<Rightarrow> bool" where
  "klines_ok s = distinct (map conf_key (klines s))"

subsection \<open>The trust store\<close>

text \<open>Modelled from the spec: \<open>shared_find\<close> (conf\_shared.c) is not among the sources.
  Section 4.5: a grant whose server, user and host patterns match the origin's server
  name, username and hostname, and whose actions include the one asked for. The C
  function returns the entry or \<open>NULL\<close>.\<close>

definition shared_find ::
  "SharedItem list \<Rightarrow> shared_type \<Rightarrow> string \<Rightarrow> string \<Rightarrow> string \<Rightarrow> SharedItem option" where
  "shared_find l t srv u h =
     List.find (\<lambda>g. t \<in> shared_actions g \<and> match (shared_server g) srv = 0 \<and>
                    match (shared_user g) u = 0 \<and> match (shared_host g) h = 0) l"

subsection \<open>Propagation\<close>

text \<open>Modelled from the spec: \<open>sendto_match_servs\<close> (send.c) is not among the sources.
  Section 4.6, \<open>distribute\<close>: every directly connected peer whose name matches the
  target pattern, whose capabilities contain the required one and which is not the
  peer the request came from is sent the line.\<close>

definition match_servs :: "Client \<Rightarrow> string \<Rightarrow> capab \<Rightarrow> ircd \<Rightarrow> Server list" where
  "match_servs source_p pat cap s =
     filter (\<lambda>p. match pat (serv_name p) = 0 \<and> cap \<in> capabilities p \<and>
                 from_link source_p \<noteq> Some (serv_name p)) (servers s)"

definition sendto_match_servs ::
  "Client \<Rightarrow> string \<Rightarrow> capab \<Rightarrow> string list \<Rightarrow> ircd \<Rightarrow> ircd" where
  "sendto_match_servs source_p pat cap line s =
     emit (map (\<lambda>p. to_server (serv_name p) line) (match_servs source_p pat cap s)) s"

text \<open>Modelled from the spec: \<open>cluster_distribute\<close> (conf\_cluster.c) is not among the
  sources. Section 4.6, \<open>clusterDistribute\<close>: every configured cluster link is sent the
  message, with no capability or pattern filter. The module passes a capability and
  a cluster action; the specification gives them no effect. The event records the peer,
  the command and the arguments as the module passes them.\<close>

definition cluster_links :: "ircd \<Rightarrow> Server list" where
  "cluster_links s = filter isClusterLink (servers s)"

definition cluster_distribute ::
  "Client \<Rightarrow> string \<Rightarrow> capab \<Rightarrow> cluster_type \<Rightarrow> string list \<Rightarrow> ircd \<Rightarrow> ircd" where
  "cluster_distribute source_p command cap t args s =
     emit (map (\<lambda>p. to_cluster (serv_name p) command args) (cluster_links s)) s"

subsection \<open>The functions the module takes from elsewhere, as parameters\<close>

text \<open>\<open>parse_netmask\<close> classifies a host mask and parses its address;
  \<open>parse_aline\<close> parses the operator's parameters into the request, may reply to the
  operator, and reports success; \<open>get_oper_name\<close> names the actor.\<close>

record externals =
  parse_netmask :: "string \<Rightarrow> hm_type \<times> irc_ssaddr"
  parse_aline :: "string \<Rightarrow> Client \<Rightarrow> nat \<Rightarrow> string list \<Rightarrow> aline_ctx \<Rightarrow> ircd
                    \<Rightarrow> bool \<times> aline_ctx \<times> ircd"
  get_oper_name :: "Client \<Rightarrow> string"

subsection \<open>The module\<close>

text \<open>\<open>kline_remove\<close>: looks the record up and deletes it when it is a record of the
  database. Returns whether it deleted.\<close>

definition kline_remove :: "externals \<Rightarrow> aline_ctx \<Rightarrow> ircd \<Rightarrow> bool \<times> ircd" where
  "kline_remove x aline s =
     (let (t, iphost) = parse_netmask x (cstr (host_mask aline));
          piphost = (if t \<noteq> HM_HOST then Some iphost else None)
      in case find_conf_by_address (klines s) (cstr (host_mask aline)) piphost CONF_KLINE
                (cstr (user aline)) of
           Some conf \<Rightarrow>
             if IsConfDatabase conf
             then (True, delete_one_address_conf (cstr (host_mask aline)) conf s)
             else (False, s)
         | None \<Rightarrow> (False, s))"

definition removed_notice :: "aline_ctx \<Rightarrow> string" where
  "removed_notice aline =
     '':K-Line for ['' @ cstr (user aline) @ ''@'' @ cstr (host_mask aline) @ ''] is removed''"

definition removed_realops :: "externals \<Rightarrow> Client \<Rightarrow> aline_ctx \<Rightarrow> string" where
  "removed_realops x source_p aline =
     get_oper_name x source_p @ '' has removed the K-Line for: ['' @ cstr (user aline) @
     ''@'' @ cstr (host_mask aline) @ '']''"

definition removed_log :: "externals \<Rightarrow> Client \<Rightarrow> aline_ctx \<Rightarrow> string" where
  "removed_log x source_p aline =
     get_oper_name x source_p @ '' removed K-Line for ['' @ cstr (user aline) @ ''@'' @
     cstr (host_mask aline) @ '']''"

definition not_found_notice :: "aline_ctx \<Rightarrow> string" where
  "not_found_notice aline =
     '':No K-Line for ['' @ cstr (user aline) @ ''@'' @ cstr (host_mask aline) @ ''] found''"

definition kline_remove_and_notify :: "externals \<Rightarrow> Client \<Rightarrow> aline_ctx \<Rightarrow> ircd \<Rightarrow> ircd" where
  "kline_remove_and_notify x source_p aline s =
     (case kline_remove x aline s of
        (True, s1) \<Rightarrow>
          let s2 = (if IsClient source_p
                    then sendto_one_notice source_p (removed_notice aline) s1 else s1);
              s3 = sendto_realops_flags UMODE_SERVNOTICE L_ALL SEND_NOTICE
                     (removed_realops x source_p aline) s2
          in ilog LOG_TYPE_KLINE (removed_log x source_p aline) s3
      | (False, s1) \<Rightarrow>
          if IsClient source_p
          then sendto_one_notice source_p (not_found_notice aline) s1 else s1)"

definition unkline_line :: "aline_ctx \<Rightarrow> string list" where
  "unkline_line aline =
     [''UNKLINE'', cstr (server aline), cstr (user aline), cstr (host_mask aline)]"

text \<open>\<open>mo_unkline\<close>, the handler of an operator's \<open>UNKLINE\<close>. \<open>parv[1]\<close> is the
  user@host mask, \<open>parv[2]\<close> is \<open>ON\<close> and \<open>parv[3]\<close> the target server, when given.\<close>

definition mo_unkline :: "externals \<Rightarrow> Client \<Rightarrow> string list \<Rightarrow> ircd \<Rightarrow> ircd" where
  "mo_unkline x source_p parv s =
     (let parc = length parv;
          aline0 = \<lparr>add = False, simple_mask = False, user = None, host_mask = None,
                     server = None\<rparr>
      in if \<not> HasOFlag source_p OPER_FLAG_UNKLINE
         then sendto_one_numeric source_p ERR_NOPRIVS ''unkline'' s
         else if EmptyString (parv_at parv 1)
         then sendto_one_numeric source_p ERR_NEEDMOREPARAMS ''UNKLINE'' s
         else case parse_aline x ''UNKLINE'' source_p parc parv aline0 s of
                (ok, aline, s1) \<Rightarrow>
                  if \<not> ok then s1
                  else (case server aline of
                     Some srv \<Rightarrow>
                       let s2 = sendto_match_servs source_p srv CAPAB_UNKLN
                                  (unkline_line aline) s1
                       in if match srv (me_name s2) \<noteq> 0 then s2
                          else kline_remove_and_notify x source_p aline s2
                   | None \<Rightarrow>
                       let s2 = cluster_distribute source_p ''UNKLINE'' CAPAB_UNKLN
                                  CLUSTER_UNKLINE
                                  [cstr (user aline), cstr (host_mask aline)] s1
                       in kline_remove_and_notify x source_p aline s2))"

text \<open>\<open>ms_unkline\<close>, the handler of an \<open>UNKLINE\<close> that a server sends. \<open>parv[1]\<close> is
  the target server mask, \<open>parv[2]\<close> the user mask and \<open>parv[3]\<close> the host mask.\<close>

definition ms_aline :: "string list \<Rightarrow> aline_ctx" where
  "ms_aline parv =
     \<lparr>add = False, simple_mask = False, user = parv_at parv 2, host_mask = parv_at parv 3,
      server = parv_at parv 1\<rparr>"

definition ms_framing_ok :: "string list \<Rightarrow> bool" where
  "ms_framing_ok parv =
     (\<not> (length parv \<noteq> 4 \<or> EmptyString (parv_at parv (length parv - 1))))"

definition ms_unkline :: "externals \<Rightarrow> Client \<Rightarrow> string list \<Rightarrow> ircd \<Rightarrow> ircd" where
  "ms_unkline x source_p parv s =
     (let aline = ms_aline parv
      in if \<not> ms_framing_ok parv then s
         else let s1 = sendto_match_servs source_p (cstr (server aline)) CAPAB_UNKLN
                         (unkline_line aline) s
              in if match (cstr (server aline)) (me_name s1) \<noteq> 0 then s1
                 else if HasFlag source_p FLAGS_SERVICE \<or>
                         shared_find (shared_list s1) SHARED_UNKLINE (servptr_name source_p)
                           (username source_p) (host source_p) \<noteq> None
                 then kline_remove_and_notify x source_p aline s1
                 else s1)"

subsection \<open>The line on the wire\<close>

text \<open>Modelled from the spec: the tokenizer of the daemon (parse.c) is not among the
  sources. Section 6: a message is a line of space-separated parameters. As in the IRC
  protocol, runs of spaces separate the parameters, and a parameter that begins with a
  colon is the last one: it is the rest of the line after the colon, and it alone may
  be empty or contain spaces. \<open>tokens w l\<close> reads the line \<open>l\<close> with \<open>w\<close> the part of the
  current parameter already read; the command is the first element, as in \<open>parv\<close>. The
  prefix that names the source of a line is not modelled, nor is the bound on the number
  of parameters.\<close>

fun tokens :: "string \<Rightarrow> string \<Rightarrow> string list" where
  "tokens w [] = (if w = [] then [] else [w])"
| "tokens w (c # cs) =
     (if c = CHR '' '' then (if w = [] then tokens [] cs else w # tokens [] cs)
      else if c = CHR '':'' \<and> w = [] then [cs]
      else tokens (w @ [c]) cs)"

definition tokenize :: "string \<Rightarrow> string list" where
  "tokenize l = tokens [] l"

text \<open>The text of a line to a server: what the format \<open>UNKLINE %s %s %s\<close> makes of its
  arguments, the fields separated by one space each.\<close>

fun wire_line :: "string list \<Rightarrow> string" where
  "wire_line [] = []"
| "wire_line [f] = f"
| "wire_line (f # g # fs) = f @ CHR '' '' # wire_line (g # fs)"

text \<open>A field that the tokenizer reads back as it was written: not empty, without a
  space, and not beginning with a colon.\<close>

fun field_ok :: "string \<Rightarrow> bool" where
  "field_ok [] = False"
| "field_ok (c # cs) = (c \<noteq> CHR '':'' \<and> CHR '' '' \<notin> set (c # cs))"

subsection \<open>Observations\<close>

text \<open>The events that go to other servers, as opposed to replies, operator notices
  and log entries; and the statically configured records of the table.\<close>

fun is_to_peer :: "event \<Rightarrow> bool" where
  "is_to_peer (to_server p l) = True"
| "is_to_peer (to_cluster p c l) = True"
| "is_to_peer e = False"

definition static_records :: "ircd \<Rightarrow> MaskItem list" where
  "static_records s = filter (\<lambda>conf. \<not> IsConfDatabase conf) (klines s)"

text \<open>What \<open>kline_remove_and_notify\<close> emits, by the outcome of the removal.\<close>

definition notify_events :: "externals \<Rightarrow> Client \<Rightarrow> aline_ctx \<Rightarrow> bool \<Rightarrow> event list" where
  "notify_events x source_p aline removed =
     (if removed
      then (if IsClient source_p then [one_notice (name source_p) (removed_notice aline)] else []) @
           [realops_notice UMODE_SERVNOTICE L_ALL SEND_NOTICE (removed_realops x source_p aline),
            log_entry LOG_TYPE_KLINE (removed_log x source_p aline)]
      else (if IsClient source_p then [one_notice (name source_p) (not_found_notice aline)] else []))"

text \<open>The propagation step of each handler on its own: the call that the handler
  makes before it turns to the local table.\<close>

definition mo_forward :: "Client \<Rightarrow> aline_ctx \<Rightarrow> ircd \<Rightarrow> ircd" where
  "mo_forward source_p aline s =
     (case server aline of
        Some srv \<Rightarrow> sendto_match_servs source_p srv CAPAB_UNKLN (unkline_line aline) s
      | None \<Rightarrow>
          cluster_distribute source_p ''UNKLINE'' CAPAB_UNKLN CLUSTER_UNKLINE
            [cstr (user aline), cstr (host_mask aline)] s)"

definition ms_forward :: "Client \<Rightarrow> string list \<Rightarrow> ircd \<Rightarrow> ircd" where
  "ms_forward source_p parv s =
     sendto_match_servs source_p (cstr (server (ms_aline parv))) CAPAB_UNKLN
       (unkline_line (ms_aline parv)) s"

subsection \<open>An example network\<close>

text \<open>Modelled from the spec: \<open>parse_aline\<close> (conf.c) is not among the sources.
  Section 4.4, \<open>ValidateParameters\<close>: the argument must parse into a user pattern and a
  host pattern, optionally followed by \<open>ON\<close> and a server pattern; otherwise the
  operator gets the missing-parameters numeric. It serves the examples only: the
  theorems are about every parser.\<close>

definition split_mask :: "string \<Rightarrow> (string \<times> string) option" where
  "split_mask m =
     (let u = takeWhile (\<lambda>c. c \<noteq> CHR ''@'') m; h = drop (Suc (length u)) m
      in if u = [] \<or> h = [] then None else Some (u, h))"

definition parse_aline_spec ::
  "string \<Rightarrow> Client \<Rightarrow> nat \<Rightarrow> string list \<Rightarrow> aline_ctx \<Rightarrow> ircd \<Rightarrow> bool \<times> aline_ctx \<times> ircd" where
  "parse_aline_spec command source_p parc parv aline s =
     (case split_mask (cstr (parv_at parv 1)) of
        None \<Rightarrow> (False, aline, sendto_one_numeric source_p ERR_NEEDMOREPARAMS command s)
      | Some (u, h) \<Rightarrow>
          (True,
           aline\<lparr>user := Some u, host_mask := Some h,
                 server := (if parv_at parv 2 = Some ''ON'' then parv_at parv 3 else None)\<rparr>,
           s))"

text \<open>The examples use host-name masks, which \<open>parse_netmask\<close> classifies as
  \<open>HM_HOST\<close>.\<close>

definition ex_externals :: externals where
  "ex_externals =
     \<lparr>parse_netmask = (\<lambda>h. (HM_HOST, [])),
      parse_aline = parse_aline_spec,
      get_oper_name = (\<lambda>c. name c @ ''!'' @ username c @ ''@'' @ host c)\<rparr>"

definition ex_ircd :: ircd where
  "ex_ircd =
     \<lparr>me_name = ''hub.example.net'',
      klines =
        [\<lparr>conf_user = ''baduser'', conf_host = ''*.bad.example'', origin = Runtime\<rparr>,
         \<lparr>conf_user = ''root'', conf_host = ''*.lab.example'', origin = Static\<rparr>],
      shared_list =
        [\<lparr>shared_server = ''*.example.net'', shared_user = ''jdoe'',
          shared_host = ''*.admin.example'', shared_actions = {SHARED_UNKLINE}\<rparr>],
      servers =
        [\<lparr>serv_name = ''leaf1.example.net'', capabilities = {CAPAB_UNKLN},
          isClusterLink = True\<rparr>,
         \<lparr>serv_name = ''leaf2.example.net'', capabilities = {},
          isClusterLink = True\<rparr>,
         \<lparr>serv_name = ''far.example.org'', capabilities = {CAPAB_UNKLN},
          isClusterLink = False\<rparr>],
      sent = []\<rparr>"

text \<open>A local operator with the \<open>unkline\<close> privilege, a local operator without it, a
  remote operator whom the shared entry trusts, a remote operator whom it does not,
  and a services server.\<close>

definition ex_oper :: Client where
  "ex_oper =
     \<lparr>name = ''alice'', username = ''alice'', host = ''staff.example'',
      servptr_name = ''hub.example.net'', status = STAT_CLIENT, flags = {},
      oflags = {OPER_FLAG_UNKLINE}, from_link = None\<rparr>"

definition ex_plain_oper :: Client where
  "ex_plain_oper = ex_oper\<lparr>name := ''bob'', username := ''bob'', oflags := {OPER_FLAG_KLINE}\<rparr>"

definition ex_remote_oper :: Client where
  "ex_remote_oper =
     \<lparr>name = ''jdoe'', username = ''jdoe'', host = ''ws.admin.example'',
      servptr_name = ''leaf1.example.net'', status = STAT_CLIENT, flags = {},
      oflags = {}, from_link = Some ''leaf1.example.net''\<rparr>"

definition ex_stranger :: Client where
  "ex_stranger = ex_remote_oper\<lparr>name := ''mallory'', username := ''mallory'', host := ''1.2.3.4''\<rparr>"

definition ex_services :: Client where
  "ex_services =
     \<lparr>name = ''services.example.net'', username = [], host = [],
      servptr_name = ''leaf1.example.net'', status = STAT_SERVER, flags = {FLAGS_SERVICE},
      oflags = {}, from_link = Some ''leaf1.example.net''\<rparr>"

text \<open>The two records of the example table, and requests that name the first, the
  second and a record that is not there.\<close>

definition ex_ban :: MaskItem where
  "ex_ban = \<lparr>conf_user = ''baduser'', conf_host = ''*.bad.example'', origin = Runtime\<rparr>"

definition ex_static_ban :: MaskItem where
  "ex_static_ban = \<lparr>conf_user = ''root'', conf_host = ''*.lab.example'', origin = Static\<rparr>"

definition ex_aline :: aline_ctx where
  "ex_aline =
     \<lparr>add = False, simple_mask = False, user = Some ''baduser'',
      host_mask = Some ''*.bad.example'', server = None\<rparr>"

definition ex_static_aline :: aline_ctx where
  "ex_static_aline =
     \<lparr>add = False, simple_mask = False, user = Some ''root'',
      host_mask = Some ''*.lab.example'', server = None\<rparr>"

definition ex_missing_aline :: aline_ctx where
  "ex_missing_aline =
     \<lparr>add = False, simple_mask = False, user = Some ''nobody'',
      host_mask = Some ''nowhere.example'', server = None\<rparr>"

text \<open>A propagated message as a server receives it, an operator's command without a
  target and one with the target \<open>*.org\<close>, and the request that \<open>parse_aline_spec\<close>
  makes of the latter.\<close>

definition ex_parv :: "string list" where
  "ex_parv = [''UNKLINE'', ''*'', ''baduser'', ''*.bad.example'']"

definition ex_cmd :: "string list" where
  "ex_cmd = [''UNKLINE'', ''baduser@*.bad.example'']"

definition ex_cmd_on :: "string list" where
  "ex_cmd_on = [''UNKLINE'', ''baduser@*.bad.example'', ''ON'', ''*.org'']"

definition ex_aline_on :: aline_ctx where
  "ex_aline_on = ex_aline\<lparr>server := Some ''*.org''\<rparr>"

definition ex_leaf2 :: Server where
  "ex_leaf2 = \<lparr>serv_name = ''leaf2.example.net'', capabilities = {}, isClusterLink = True\<rparr>"

section \<open>Properties\<close>

subsection \<open>Auxiliary facts\<close>

lemma emit_fields [simp]:
  "klines (emit es s) = klines s" "me_name (emit es s) = me_name s"
  "servers (emit es s) = servers s" "shared_list (emit es s) = shared_list s"
  "sent (emit es s) = sent s @ es"
  by (simp_all add: emit_def)

lemma emit_emit: "emit es' (emit es s) = emit (es @ es') s"
  by (simp add: emit_def)

lemma emit_Nil [simp]: "emit [] s = s"
  by (simp add: emit_def)

lemma find_conf_SomeD:
  "find_conf_by_address tbl h p t u = Some conf \<Longrightarrow>
     conf \<in> set tbl \<and> conf_user conf = u \<and> conf_host conf = h"
  by (auto simp: find_conf_by_address_def find_Some_iff)

lemma kline_remove_cases:
  "kline_remove x a s = (False, s) \<or>
   (\<exists>conf. conf \<in> set (klines s) \<and> IsConfDatabase conf \<and>
      conf_user conf = cstr (user a) \<and> conf_host conf = cstr (host_mask a) \<and>
      kline_remove x a s = (True, s\<lparr>klines := remove1 conf (klines s)\<rparr>))"
  by (auto simp: kline_remove_def delete_one_address_conf_def Let_def
      split: prod.splits option.splits dest: find_conf_SomeD)

lemma filter_static_remove1:
  "IsConfDatabase conf \<Longrightarrow>
     filter (\<lambda>c. \<not> IsConfDatabase c) (remove1 conf l) = filter (\<lambda>c. \<not> IsConfDatabase c) l"
  by (induction l) auto

lemma kline_remove_static_records:
  "static_records (snd (kline_remove x a s)) = static_records s"
  using kline_remove_cases [of x a s]
  by (auto simp: static_records_def filter_static_remove1)

lemma kline_remove_frame:
  "me_name (snd (kline_remove x a s)) = me_name s"
  "servers (snd (kline_remove x a s)) = servers s"
  "shared_list (snd (kline_remove x a s)) = shared_list s"
  "sent (snd (kline_remove x a s)) = sent s"
  using kline_remove_cases [of x a s] by auto

lemma kran_emit:
  "kline_remove_and_notify x c a s =
     emit (notify_events x c a (fst (kline_remove x a s))) (snd (kline_remove x a s))"
  by (cases "kline_remove x a s")
     (auto simp: kline_remove_and_notify_def notify_events_def sendto_one_notice_def
        sendto_realops_flags_def ilog_def emit_emit Let_def)

lemma notify_events_local: "filter is_to_peer (notify_events x c a b) = []"
  by (simp add: notify_events_def)

lemma ms_framing_ok_iff: "ms_framing_ok parv \<longleftrightarrow> length parv = 4 \<and> parv ! 3 \<noteq> []"
  by (auto simp: ms_framing_ok_def parv_at_def)

lemma find_key_distinct:
  "distinct (map conf_key l) \<Longrightarrow> conf \<in> set l \<Longrightarrow>
     List.find (\<lambda>c. conf_user c = conf_user conf \<and> conf_host c = conf_host conf) l = Some conf"
  by (induction l) (auto simp: conf_key_def image_iff)

lemma find_key_removed:
  "distinct (map conf_key l) \<Longrightarrow> conf \<in> set l \<Longrightarrow>
     List.find (\<lambda>c. conf_user c = conf_user conf \<and> conf_host c = conf_host conf)
       (remove1 conf l) = None"
  by (auto simp: find_None_iff distinct_map conf_key_def inj_on_def dest!: notin_set_remove1)

lemma distinct_keys_remove1:
  "distinct (map conf_key l) \<Longrightarrow> distinct (map conf_key (remove1 conf l))"
  by (induction l) (auto simp: image_iff dest: notin_set_remove1)

subsection \<open>Auxiliary facts about the handlers\<close>

lemma sendto_match_servs_fields [simp]:
  "klines (sendto_match_servs c pat cap l s) = klines s"
  "me_name (sendto_match_servs c pat cap l s) = me_name s"
  "servers (sendto_match_servs c pat cap l s) = servers s"
  "shared_list (sendto_match_servs c pat cap l s) = shared_list s"
  "sent (sendto_match_servs c pat cap l s) =
     sent s @ map (\<lambda>p. to_server (serv_name p) l) (match_servs c pat cap s)"
  by (simp_all add: sendto_match_servs_def)

lemma cluster_distribute_fields [simp]:
  "klines (cluster_distribute c cmd cap t args s) = klines s"
  "me_name (cluster_distribute c cmd cap t args s) = me_name s"
  "servers (cluster_distribute c cmd cap t args s) = servers s"
  "sent (cluster_distribute c cmd cap t args s) =
     sent s @ map (\<lambda>p. to_cluster (serv_name p) cmd args) (cluster_links s)"
  by (simp_all add: cluster_distribute_def)

lemma filter_to_server [simp]:
  "filter is_to_peer (map (\<lambda>p. to_server (f p) l) ps) = map (\<lambda>p. to_server (f p) l) ps"
  by (induction ps) auto

lemma filter_to_cluster [simp]:
  "filter is_to_peer (map (\<lambda>p. to_cluster (f p) c l) ps) = map (\<lambda>p. to_cluster (f p) c l) ps"
  by (induction ps) auto

lemma kran_sent:
  "sent (kline_remove_and_notify x c a s) =
     sent s @ notify_events x c a (fst (kline_remove x a s))"
  by (simp add: kran_emit kline_remove_frame)

lemma kran_to_peer:
  "filter is_to_peer (sent (kline_remove_and_notify x c a s)) = filter is_to_peer (sent s)"
  by (simp add: kran_sent notify_events_local)

lemma shared_find_iff:
  "shared_find l t srv u h \<noteq> None \<longleftrightarrow>
     (\<exists>g\<in>set l. t \<in> shared_actions g \<and> match (shared_server g) srv = 0 \<and>
        match (shared_user g) u = 0 \<and> match (shared_host g) h = 0)"
  by (auto simp: shared_find_def find_None_iff)

lemma mo_unkline_valid:
  assumes "HasOFlag source_p OPER_FLAG_UNKLINE"
    and "\<not> EmptyString (parv_at parv 1)"
    and "parse_aline x ''UNKLINE'' source_p (length parv) parv
           \<lparr>add = False, simple_mask = False, user = None, host_mask = None, server = None\<rparr> s =
         (True, aline, s1)"
  shows "mo_unkline x source_p parv s =
           (case server aline of
              Some srv \<Rightarrow>
                if match srv (me_name s1) = 0
                then kline_remove_and_notify x source_p aline (mo_forward source_p aline s1)
                else mo_forward source_p aline s1
            | None \<Rightarrow> kline_remove_and_notify x source_p aline (mo_forward source_p aline s1))"
  using assms by (simp add: mo_unkline_def mo_forward_def Let_def split: option.splits)

lemma ms_unkline_valid:
  assumes "length parv = 4" and "parv ! 3 \<noteq> []"
  shows "ms_unkline x source_p parv s =
           (if match (parv ! 1) (me_name s) \<noteq> 0 then ms_forward source_p parv s
            else if HasFlag source_p FLAGS_SERVICE \<or>
                    shared_find (shared_list s) SHARED_UNKLINE (servptr_name source_p)
                      (username source_p) (host source_p) \<noteq> None
            then kline_remove_and_notify x source_p (ms_aline parv) (ms_forward source_p parv s)
            else ms_forward source_p parv s)"
  using assms
  by (simp add: ms_unkline_def ms_framing_ok_iff ms_forward_def Let_def ms_aline_def parv_at_def)

lemma ms_aline_4:
  "length parv = 4 \<Longrightarrow>
     ms_aline parv = \<lparr>add = False, simple_mask = False, user = Some (parv ! 2),
                       host_mask = Some (parv ! 3), server = Some (parv ! 1)\<rparr>"
  by (simp add: ms_aline_def parv_at_def)

lemma ms_forward_4:
  "length parv = 4 \<Longrightarrow>
     ms_forward source_p parv s =
       sendto_match_servs source_p (parv ! 1) CAPAB_UNKLN
         [''UNKLINE'', parv ! 1, parv ! 2, parv ! 3] s"
  by (simp add: ms_forward_def ms_aline_4 unkline_line_def)

text \<open>The tokenizer and the text of a line.\<close>

lemma tokens_butlast: "list_all (\<lambda>p. p \<noteq> []) (butlast (tokens w l))"
  by (induction l arbitrary: w) auto

lemma tokenize_butlast: "list_all (\<lambda>p. p \<noteq> []) (butlast (tokenize l))"
  by (simp add: tokenize_def tokens_butlast)

lemma list_all_4:
  "length parv = 4 \<Longrightarrow> list_all P parv \<longleftrightarrow> list_all P (butlast parv) \<and> P (parv ! 3)"
  by (auto simp: numeral_eq_Suc length_Suc_conv)

lemma tokens_run:
  "CHR '' '' \<notin> set v \<Longrightarrow> w \<noteq> [] \<Longrightarrow> tokens w (v @ CHR '' '' # r) = (w @ v) # tokens [] r"
  by (induction v arbitrary: w) auto

lemma tokens_end: "CHR '' '' \<notin> set v \<Longrightarrow> w \<noteq> [] \<Longrightarrow> tokens w v = [w @ v]"
  by (induction v arbitrary: w) auto

lemma tokens_field: "field_ok v \<Longrightarrow> tokens [] (v @ CHR '' '' # r) = v # tokens [] r"
  by (cases v) (auto simp: tokens_run)

lemma tokens_last_field: "field_ok v \<Longrightarrow> tokens [] v = [v]"
  by (cases v) (auto simp: tokens_end)

lemma tokenize_wire_line: "list_all field_ok fs \<Longrightarrow> tokenize (wire_line fs) = fs"
  unfolding tokenize_def
  by (induction fs rule: wire_line.induct) (auto simp: tokens_field tokens_last_field)

subsection \<open>Removal from the ban table\<close>

text \<open>C2: \<open>kline_remove\<close> never deletes a statically configured record, whoever asks.
  The static records of the table are the same list after \<open>kline_remove\<close>, and after
  \<open>kline_remove_and_notify\<close> for every requester; when the record that the lookup
  finds is static the function reports failure and leaves the state as it is; and when
  it reports success, what it deleted is one record of the database. (The C function
  returns a \<open>bool\<close>: the failure for a protected record is the same \<open>false\<close> as for a
  record that is not there.)\<close>

theorem kline_remove_keeps_static:
  "static_records (snd (kline_remove x aline s)) = static_records s \<and>
   static_records (kline_remove_and_notify x source_p aline s) = static_records s \<and>
   (\<forall>conf. find_conf_by_address (klines s) (cstr (host_mask aline)) piphost CONF_KLINE
             (cstr (user aline)) = Some conf \<and> \<not> IsConfDatabase conf \<longrightarrow>
           kline_remove x aline s = (False, s)) \<and>
   (fst (kline_remove x aline s) \<longrightarrow>
      (\<exists>conf. conf \<in> set (klines s) \<and> IsConfDatabase conf \<and>
         klines (snd (kline_remove x aline s)) = remove1 conf (klines s)))"
proof -
  have a: "static_records (snd (kline_remove x aline s)) = static_records s"
    by (rule kline_remove_static_records)
  have b: "static_records (kline_remove_and_notify x source_p aline s) = static_records s"
    using a by (simp add: kran_emit static_records_def)
  have c: "\<forall>conf. find_conf_by_address (klines s) (cstr (host_mask aline)) piphost CONF_KLINE
             (cstr (user aline)) = Some conf \<and> \<not> IsConfDatabase conf \<longrightarrow>
           kline_remove x aline s = (False, s)"
    by (auto simp: kline_remove_def find_conf_by_address_def split: prod.splits)
  have d: "fst (kline_remove x aline s) \<longrightarrow>
      (\<exists>conf. conf \<in> set (klines s) \<and> IsConfDatabase conf \<and>
         klines (snd (kline_remove x aline s)) = remove1 conf (klines s))"
    using kline_remove_cases [of x aline s] by auto
  from a b c d show ?thesis by blast
qed

theorem kline_remove_keeps_static_witness:
  "find_conf_by_address (klines ex_ircd) (cstr (host_mask ex_static_aline)) None CONF_KLINE
     (cstr (user ex_static_aline)) = Some ex_static_ban \<and>
   \<not> IsConfDatabase ex_static_ban \<and>
   kline_remove ex_externals ex_static_aline ex_ircd = (False, ex_ircd) \<and>
   fst (kline_remove ex_externals ex_aline ex_ircd) \<and>
   (\<exists>conf. conf \<in> set (klines ex_ircd) \<and> IsConfDatabase conf \<and>
      klines (snd (kline_remove ex_externals ex_aline ex_ircd)) = remove1 conf (klines ex_ircd)) \<and>
   static_records (kline_remove_and_notify ex_externals ex_remote_oper ex_aline ex_ircd) =
     static_records ex_ircd \<and>
   static_records ex_ircd = [ex_static_ban]"
proof -
  have h1: "find_conf_by_address (klines ex_ircd) (cstr (host_mask ex_static_aline)) None
      CONF_KLINE (cstr (user ex_static_aline)) = Some ex_static_ban"
    by code_simp
  have h2: "\<not> IsConfDatabase ex_static_ban"
    by code_simp
  have h3: "fst (kline_remove ex_externals ex_aline ex_ircd)"
    by code_simp
  have h4: "static_records ex_ircd = [ex_static_ban]"
    by code_simp
  have r1: "kline_remove ex_externals ex_static_aline ex_ircd = (False, ex_ircd)"
    using kline_remove_keeps_static
      [of ex_externals ex_static_aline ex_ircd ex_remote_oper None] h1 h2
    by blast
  have r2: "\<exists>conf. conf \<in> set (klines ex_ircd) \<and> IsConfDatabase conf \<and>
      klines (snd (kline_remove ex_externals ex_aline ex_ircd)) = remove1 conf (klines ex_ircd)"
    using kline_remove_keeps_static [of ex_externals ex_aline ex_ircd ex_remote_oper None] h3
    by blast
  have r3: "static_records (kline_remove_and_notify ex_externals ex_remote_oper ex_aline ex_ircd) =
      static_records ex_ircd"
    using kline_remove_keeps_static [of ex_externals ex_aline ex_ircd ex_remote_oper None]
    by blast
  from h1 h2 h3 h4 r1 r2 r3 show ?thesis by blast
qed

text \<open>C9: removing a record of the database succeeds exactly once. In a table that
  keeps the invariant of distinct (user, host) pairs, a request that names a
  database record deletes it and returns success; the same request on the resulting
  state returns failure and leaves that state as it is. The invariant is kept.\<close>

theorem kline_remove_once:
  assumes "klines_ok s" and "conf \<in> set (klines s)" and "IsConfDatabase conf"
    and "cstr (user aline) = conf_user conf" and "cstr (host_mask aline) = conf_host conf"
  shows "kline_remove x aline s = (True, s\<lparr>klines := remove1 conf (klines s)\<rparr>) \<and>
         conf \<notin> set (remove1 conf (klines s)) \<and>
         kline_remove x aline (s\<lparr>klines := remove1 conf (klines s)\<rparr>) =
           (False, s\<lparr>klines := remove1 conf (klines s)\<rparr>) \<and>
         klines_ok (s\<lparr>klines := remove1 conf (klines s)\<rparr>)"
proof -
  from assms(1) have d: "distinct (map conf_key (klines s))"
    by (simp add: klines_ok_def)
  have first: "kline_remove x aline s = (True, s\<lparr>klines := remove1 conf (klines s)\<rparr>)"
    using find_key_distinct [OF d assms(2)] assms(3,4,5)
    by (simp add: kline_remove_def find_conf_by_address_def delete_one_address_conf_def
        split: prod.splits)
  have gone: "conf \<notin> set (remove1 conf (klines s))"
    using d by (simp add: distinct_map)
  have second: "kline_remove x aline (s\<lparr>klines := remove1 conf (klines s)\<rparr>) =
      (False, s\<lparr>klines := remove1 conf (klines s)\<rparr>)"
    using find_key_removed [OF d assms(2)] assms(4,5)
    by (simp add: kline_remove_def find_conf_by_address_def split: prod.splits)
  have ok: "klines_ok (s\<lparr>klines := remove1 conf (klines s)\<rparr>)"
    using distinct_keys_remove1 [OF d] by (simp add: klines_ok_def)
  from first gone second ok show ?thesis by blast
qed

theorem kline_remove_once_witness:
  "klines_ok ex_ircd \<and> ex_ban \<in> set (klines ex_ircd) \<and> IsConfDatabase ex_ban \<and>
   cstr (user ex_aline) = conf_user ex_ban \<and> cstr (host_mask ex_aline) = conf_host ex_ban \<and>
   kline_remove ex_externals ex_aline ex_ircd =
     (True, ex_ircd\<lparr>klines := remove1 ex_ban (klines ex_ircd)\<rparr>) \<and>
   ex_ban \<notin> set (remove1 ex_ban (klines ex_ircd)) \<and>
   kline_remove ex_externals ex_aline (ex_ircd\<lparr>klines := remove1 ex_ban (klines ex_ircd)\<rparr>) =
     (False, ex_ircd\<lparr>klines := remove1 ex_ban (klines ex_ircd)\<rparr>) \<and>
   klines_ok (ex_ircd\<lparr>klines := remove1 ex_ban (klines ex_ircd)\<rparr>) \<and>
   remove1 ex_ban (klines ex_ircd) = [ex_static_ban]"
proof -
  have h1: "klines_ok ex_ircd" by code_simp
  have h2: "ex_ban \<in> set (klines ex_ircd)" by code_simp
  have h3: "IsConfDatabase ex_ban" by code_simp
  have h4: "cstr (user ex_aline) = conf_user ex_ban" by code_simp
  have h5: "cstr (host_mask ex_aline) = conf_host ex_ban" by code_simp
  have h6: "remove1 ex_ban (klines ex_ircd) = [ex_static_ban]" by code_simp
  from kline_remove_once [OF h1 h2 h3 h4 h5, of ex_externals] h1 h2 h3 h4 h5 h6
  show ?thesis by blast
qed

subsection \<open>The local removal and its notices\<close>

text \<open>C8 (as amended): \<open>kline_remove_and_notify\<close> emits, after a successful removal,
  a confirmation notice to the requester exactly when the requester is a client (a
  user rather than a server, whether connected here or reached through another
  server), then an operator notice naming the actor and the removed user@host
  pattern, then one log entry; after a failed removal it emits the notice that no
  K-line was found, again exactly when the requester is a client, and nothing when the
  requester is not a client. The table is the one \<open>kline_remove\<close> leaves.\<close>

theorem kline_remove_and_notify_events:
  "kline_remove_and_notify x source_p aline s =
     emit (if fst (kline_remove x aline s)
           then (if IsClient source_p
                 then [one_notice (name source_p) (removed_notice aline)] else []) @
                [realops_notice UMODE_SERVNOTICE L_ALL SEND_NOTICE
                   (removed_realops x source_p aline),
                 log_entry LOG_TYPE_KLINE (removed_log x source_p aline)]
           else (if IsClient source_p
                 then [one_notice (name source_p) (not_found_notice aline)] else []))
       (snd (kline_remove x aline s))"
  by (simp add: kran_emit notify_events_def)

text \<open>The claim as first stated speaks of a local client. A remote operator, reached
  through \<open>leaf1.example.net\<close>, asks for the removal of a record that is not in the
  table: the notice goes back to that operator.\<close>

theorem kline_remove_and_notify_remote_counterexample:
  "\<not> MyClient ex_remote_oper \<and>
   from_link ex_remote_oper = Some ''leaf1.example.net'' \<and>
   sent ex_ircd = [] \<and>
   sent (kline_remove_and_notify ex_externals ex_remote_oper ex_missing_aline ex_ircd) =
     [one_notice ''jdoe'' '':No K-Line for [nobody@nowhere.example] found'']"
  by code_simp

subsection \<open>The operator handler\<close>

text \<open>C5: an operator without the \<open>unkline\<close> privilege gets the \<open>ERR_NOPRIVS\<close> numeric
  and nothing else happens: the table is unchanged and nothing is sent to a server.\<close>

theorem mo_unkline_noprivs:
  assumes "\<not> HasOFlag source_p OPER_FLAG_UNKLINE"
  shows "mo_unkline x source_p parv s =
           s\<lparr>sent := sent s @ [one_numeric (name source_p) ERR_NOPRIVS ''unkline'']\<rparr> \<and>
         klines (mo_unkline x source_p parv s) = klines s \<and>
         filter is_to_peer (sent (mo_unkline x source_p parv s)) = filter is_to_peer (sent s)"
  using assms by (simp add: mo_unkline_def sendto_one_numeric_def emit_def)

theorem mo_unkline_noprivs_witness:
  "\<not> HasOFlag ex_plain_oper OPER_FLAG_UNKLINE \<and>
   mo_unkline ex_externals ex_plain_oper [''UNKLINE'', ''baduser@*.bad.example''] ex_ircd =
     ex_ircd\<lparr>sent := sent ex_ircd @ [one_numeric (name ex_plain_oper) ERR_NOPRIVS ''unkline'']\<rparr> \<and>
   klines (mo_unkline ex_externals ex_plain_oper [''UNKLINE'', ''baduser@*.bad.example''] ex_ircd) =
     klines ex_ircd \<and>
   filter is_to_peer
     (sent (mo_unkline ex_externals ex_plain_oper [''UNKLINE'', ''baduser@*.bad.example''] ex_ircd)) =
     filter is_to_peer (sent ex_ircd)"
proof -
  have h: "\<not> HasOFlag ex_plain_oper OPER_FLAG_UNKLINE" by code_simp
  from mo_unkline_noprivs [OF h, of ex_externals "[''UNKLINE'', ''baduser@*.bad.example'']" ex_ircd] h
  show ?thesis by blast
qed

subsection \<open>The server handler\<close>

text \<open>C7: \<open>ms_unkline\<close> drops the message, leaving the whole state as it is (no reply,
  no forwarding, no change of the table), unless there are exactly four parameters and
  all of them are non-empty. The handler itself tests the number of parameters and the
  last parameter only; the parameters before the last are non-empty because the
  tokenizer never yields an empty parameter before the last one. So the statement is
  given for every list of parameters with that property, and for the parameters of
  every line as the tokenizer reads it. With four non-empty parameters (indeed with
  four parameters and a non-empty last one) the message is not dropped: it is
  forwarded.\<close>

theorem ms_unkline_framing:
  "(list_all (\<lambda>p. p \<noteq> []) (butlast parv) \<and>
    \<not> (length parv = 4 \<and> list_all (\<lambda>p. p \<noteq> []) parv) \<longrightarrow>
      ms_unkline x source_p parv s = s) \<and>
   (\<not> (length (tokenize l) = 4 \<and> list_all (\<lambda>p. p \<noteq> []) (tokenize l)) \<longrightarrow>
      ms_unkline x source_p (tokenize l) s = s) \<and>
   (length parv = 4 \<and> parv ! 3 \<noteq> [] \<longrightarrow>
      filter is_to_peer (sent (ms_unkline x source_p parv s)) =
        filter is_to_peer (sent s) @
        map (\<lambda>p. to_server (serv_name p) [''UNKLINE'', parv ! 1, parv ! 2, parv ! 3])
          (match_servs source_p (parv ! 1) CAPAB_UNKLN s))"
proof -
  have drop: "\<And>pv. list_all (\<lambda>p. p \<noteq> []) (butlast pv) \<Longrightarrow>
      \<not> (length pv = 4 \<and> list_all (\<lambda>p. p \<noteq> []) pv) \<Longrightarrow> ms_unkline x source_p pv s = s"
  proof -
    fix pv :: "string list"
    assume mid: "list_all (\<lambda>p. p \<noteq> []) (butlast pv)"
      and bad: "\<not> (length pv = 4 \<and> list_all (\<lambda>p. p \<noteq> []) pv)"
    have "length pv \<noteq> 4 \<or> pv ! 3 = []"
    proof (cases "length pv = 4")
      case True
      with mid bad show ?thesis by (simp add: list_all_4)
    next
      case False
      then show ?thesis by simp
    qed
    then show "ms_unkline x source_p pv s = s"
      by (auto simp: ms_unkline_def ms_framing_ok_iff Let_def)
  qed
  have a: "list_all (\<lambda>p. p \<noteq> []) (butlast parv) \<and>
      \<not> (length parv = 4 \<and> list_all (\<lambda>p. p \<noteq> []) parv) \<longrightarrow>
      ms_unkline x source_p parv s = s"
    using drop by blast
  have b: "\<not> (length (tokenize l) = 4 \<and> list_all (\<lambda>p. p \<noteq> []) (tokenize l)) \<longrightarrow>
      ms_unkline x source_p (tokenize l) s = s"
    using drop [OF tokenize_butlast] by blast
  have c: "length parv = 4 \<and> parv ! 3 \<noteq> [] \<longrightarrow>
      filter is_to_peer (sent (ms_unkline x source_p parv s)) =
        filter is_to_peer (sent s) @
        map (\<lambda>p. to_server (serv_name p) [''UNKLINE'', parv ! 1, parv ! 2, parv ! 3])
          (match_servs source_p (parv ! 1) CAPAB_UNKLN s)"
    by (simp add: ms_unkline_valid kran_to_peer ms_forward_4)
  from a b c show ?thesis by blast
qed

theorem ms_unkline_framing_witness:
  "list_all (\<lambda>p. p \<noteq> []) (butlast [''UNKLINE'', ''*'', ''baduser'']) \<and>
   \<not> (length [''UNKLINE'', ''*'', ''baduser''] = 4 \<and>
      list_all (\<lambda>p. p \<noteq> []) [''UNKLINE'', ''*'', ''baduser'']) \<and>
   ms_unkline ex_externals ex_remote_oper [''UNKLINE'', ''*'', ''baduser''] ex_ircd = ex_ircd \<and>
   tokenize ''UNKLINE * baduser :'' = [''UNKLINE'', ''*'', ''baduser'', ''''] \<and>
   \<not> (length (tokenize ''UNKLINE * baduser :'') = 4 \<and>
      list_all (\<lambda>p. p \<noteq> []) (tokenize ''UNKLINE * baduser :'')) \<and>
   ms_unkline ex_externals ex_remote_oper (tokenize ''UNKLINE * baduser :'') ex_ircd = ex_ircd \<and>
   tokenize ''UNKLINE *  *.bad.example'' = [''UNKLINE'', ''*'', ''*.bad.example''] \<and>
   ms_unkline ex_externals ex_remote_oper (tokenize ''UNKLINE *  *.bad.example'') ex_ircd = ex_ircd \<and>
   length ex_parv = 4 \<and> ex_parv ! 3 \<noteq> [] \<and>
   filter is_to_peer (sent (ms_unkline ex_externals ex_remote_oper ex_parv ex_ircd)) =
     filter is_to_peer (sent ex_ircd) @
     map (\<lambda>p. to_server (serv_name p) [''UNKLINE'', ex_parv ! 1, ex_parv ! 2, ex_parv ! 3])
       (match_servs ex_remote_oper (ex_parv ! 1) CAPAB_UNKLN ex_ircd) \<and>
   filter is_to_peer (sent (ms_unkline ex_externals ex_remote_oper ex_parv ex_ircd)) =
     [to_server ''far.example.org'' ex_parv]"
proof -
  have h1: "list_all (\<lambda>p. p \<noteq> []) (butlast [''UNKLINE'', ''*'', ''baduser''])"
    by simp
  have h2: "\<not> (length [''UNKLINE'', ''*'', ''baduser''] = 4 \<and>
      list_all (\<lambda>p. p \<noteq> []) [''UNKLINE'', ''*'', ''baduser''])"
    by simp
  have t1: "tokenize ''UNKLINE * baduser :'' = [''UNKLINE'', ''*'', ''baduser'', '''']"
    by code_simp
  have h3: "\<not> (length (tokenize ''UNKLINE * baduser :'') = 4 \<and>
      list_all (\<lambda>p. p \<noteq> []) (tokenize ''UNKLINE * baduser :''))"
    by (simp add: t1)
  have t2: "tokenize ''UNKLINE *  *.bad.example'' = [''UNKLINE'', ''*'', ''*.bad.example'']"
    by code_simp
  have h4: "\<not> (length (tokenize ''UNKLINE *  *.bad.example'') = 4 \<and>
      list_all (\<lambda>p. p \<noteq> []) (tokenize ''UNKLINE *  *.bad.example''))"
    by (simp add: t2)
  have h5: "length ex_parv = 4" by code_simp
  have h6: "ex_parv ! 3 \<noteq> []" by code_simp
  have e1: "filter is_to_peer (sent (ms_unkline ex_externals ex_remote_oper ex_parv ex_ircd)) =
     [to_server ''far.example.org'' ex_parv]"
    by code_simp
  have r1: "ms_unkline ex_externals ex_remote_oper [''UNKLINE'', ''*'', ''baduser''] ex_ircd = ex_ircd"
    using ms_unkline_framing
      [where parv = "[''UNKLINE'', ''*'', ''baduser'']" and x = ex_externals and
         source_p = ex_remote_oper and s = ex_ircd] h1 h2
    by blast
  have r2: "ms_unkline ex_externals ex_remote_oper (tokenize ''UNKLINE * baduser :'') ex_ircd =
      ex_ircd"
    using ms_unkline_framing
      [where l = "''UNKLINE * baduser :''" and x = ex_externals and
         source_p = ex_remote_oper and s = ex_ircd] h3
    by blast
  have r3: "ms_unkline ex_externals ex_remote_oper (tokenize ''UNKLINE *  *.bad.example'') ex_ircd =
      ex_ircd"
    using ms_unkline_framing
      [where l = "''UNKLINE *  *.bad.example''" and x = ex_externals and
         source_p = ex_remote_oper and s = ex_ircd] h4
    by blast
  have r4: "filter is_to_peer (sent (ms_unkline ex_externals ex_remote_oper ex_parv ex_ircd)) =
     filter is_to_peer (sent ex_ircd) @
     map (\<lambda>p. to_server (serv_name p) [''UNKLINE'', ex_parv ! 1, ex_parv ! 2, ex_parv ! 3])
       (match_servs ex_remote_oper (ex_parv ! 1) CAPAB_UNKLN ex_ircd)"
    using ms_unkline_framing
      [where parv = ex_parv and x = ex_externals and source_p = ex_remote_oper and s = ex_ircd]
      h5 h6
    by blast
  from h1 h2 h3 h4 h5 h6 t1 t2 e1 r1 r2 r3 r4 show ?thesis by blast
qed

subsection \<open>The operator handler: targets\<close>

text \<open>C3: an operator's \<open>UNKLINE\<close> that passes the privilege check and the parameter
  check, and that \<open>parse_aline\<close> accepts; the operator is connected to this server. With
  a target server mask, the line goes to every server whose name matches the mask and
  that has the \<open>UNKLN\<close> capability, and the local removal follows exactly when the
  name of this server matches the mask. Without a target, the request goes to the
  cluster links, and the local removal always follows.\<close>

theorem mo_unkline_target:
  assumes "HasOFlag source_p OPER_FLAG_UNKLINE"
    and "\<not> EmptyString (parv_at parv 1)"
    and "parse_aline x ''UNKLINE'' source_p (length parv) parv
           \<lparr>add = False, simple_mask = False, user = None, host_mask = None, server = None\<rparr> s =
         (True, aline, s1)"
    and "MyConnect source_p"
  shows "(\<forall>srv. server aline = Some srv \<longrightarrow>
            mo_unkline x source_p parv s =
              (if match srv (me_name s1) = 0
               then kline_remove_and_notify x source_p aline
                      (emit (map (\<lambda>p. to_server (serv_name p)
                                    [''UNKLINE'', srv, cstr (user aline), cstr (host_mask aline)])
                               (filter (\<lambda>p. match srv (serv_name p) = 0 \<and>
                                           CAPAB_UNKLN \<in> capabilities p) (servers s1))) s1)
               else emit (map (\<lambda>p. to_server (serv_name p)
                                 [''UNKLINE'', srv, cstr (user aline), cstr (host_mask aline)])
                            (filter (\<lambda>p. match srv (serv_name p) = 0 \<and>
                                        CAPAB_UNKLN \<in> capabilities p) (servers s1))) s1)) \<and>
         (server aline = None \<longrightarrow>
            mo_unkline x source_p parv s =
              kline_remove_and_notify x source_p aline
                (emit (map (\<lambda>p. to_cluster (serv_name p) ''UNKLINE''
                              [cstr (user aline), cstr (host_mask aline)])
                         (filter isClusterLink (servers s1))) s1))"
  using assms(4)
  by (simp add: mo_unkline_valid [OF assms(1,2,3)] mo_forward_def sendto_match_servs_def
      match_servs_def cluster_distribute_def cluster_links_def unkline_line_def MyConnect_def)

theorem mo_unkline_target_witness:
  "HasOFlag ex_oper OPER_FLAG_UNKLINE \<and> MyConnect ex_oper \<and>
   \<not> EmptyString (parv_at ex_cmd_on 1) \<and>
   parse_aline ex_externals ''UNKLINE'' ex_oper (length ex_cmd_on) ex_cmd_on
     \<lparr>add = False, simple_mask = False, user = None, host_mask = None, server = None\<rparr> ex_ircd =
     (True, ex_aline_on, ex_ircd) \<and>
   server ex_aline_on = Some ''*.org'' \<and>
   match ''*.org'' (me_name ex_ircd) = 1 \<and>
   mo_unkline ex_externals ex_oper ex_cmd_on ex_ircd =
     emit (map (\<lambda>p. to_server (serv_name p)
                  [''UNKLINE'', ''*.org'', cstr (user ex_aline_on), cstr (host_mask ex_aline_on)])
             (filter (\<lambda>p. match ''*.org'' (serv_name p) = 0 \<and> CAPAB_UNKLN \<in> capabilities p)
                (servers ex_ircd))) ex_ircd \<and>
   mo_unkline ex_externals ex_oper ex_cmd_on ex_ircd =
     ex_ircd\<lparr>sent := [to_server ''far.example.org''
                        [''UNKLINE'', ''*.org'', ''baduser'', ''*.bad.example'']]\<rparr> \<and>
   \<not> EmptyString (parv_at ex_cmd 1) \<and>
   parse_aline ex_externals ''UNKLINE'' ex_oper (length ex_cmd) ex_cmd
     \<lparr>add = False, simple_mask = False, user = None, host_mask = None, server = None\<rparr> ex_ircd =
     (True, ex_aline, ex_ircd) \<and>
   server ex_aline = None \<and>
   mo_unkline ex_externals ex_oper ex_cmd ex_ircd =
     kline_remove_and_notify ex_externals ex_oper ex_aline
       (emit (map (\<lambda>p. to_cluster (serv_name p) ''UNKLINE''
                     [cstr (user ex_aline), cstr (host_mask ex_aline)])
                (filter isClusterLink (servers ex_ircd))) ex_ircd) \<and>
   klines (mo_unkline ex_externals ex_oper ex_cmd ex_ircd) = [ex_static_ban]"
proof -
  have h1: "HasOFlag ex_oper OPER_FLAG_UNKLINE" by code_simp
  have h2: "\<not> EmptyString (parv_at ex_cmd_on 1)" by code_simp
  have h3: "parse_aline ex_externals ''UNKLINE'' ex_oper (length ex_cmd_on) ex_cmd_on
     \<lparr>add = False, simple_mask = False, user = None, host_mask = None, server = None\<rparr> ex_ircd =
     (True, ex_aline_on, ex_ircd)" by code_simp
  have h4: "MyConnect ex_oper" by code_simp
  have h5: "server ex_aline_on = Some ''*.org''" by code_simp
  have h6: "match ''*.org'' (me_name ex_ircd) = 1" by code_simp
  have g2: "\<not> EmptyString (parv_at ex_cmd 1)" by code_simp
  have g3: "parse_aline ex_externals ''UNKLINE'' ex_oper (length ex_cmd) ex_cmd
     \<lparr>add = False, simple_mask = False, user = None, host_mask = None, server = None\<rparr> ex_ircd =
     (True, ex_aline, ex_ircd)" by code_simp
  have g5: "server ex_aline = None" by code_simp
  have e1: "mo_unkline ex_externals ex_oper ex_cmd_on ex_ircd =
     ex_ircd\<lparr>sent := [to_server ''far.example.org''
                        [''UNKLINE'', ''*.org'', ''baduser'', ''*.bad.example'']]\<rparr>"
    by code_simp
  have e2: "klines (mo_unkline ex_externals ex_oper ex_cmd ex_ircd) = [ex_static_ban]"
    by code_simp
  have r1: "mo_unkline ex_externals ex_oper ex_cmd_on ex_ircd =
     emit (map (\<lambda>p. to_server (serv_name p)
                  [''UNKLINE'', ''*.org'', cstr (user ex_aline_on), cstr (host_mask ex_aline_on)])
             (filter (\<lambda>p. match ''*.org'' (serv_name p) = 0 \<and> CAPAB_UNKLN \<in> capabilities p)
                (servers ex_ircd))) ex_ircd"
    using mo_unkline_target [OF h1 h2 h3 h4] h5 h6 by simp
  have r2: "mo_unkline ex_externals ex_oper ex_cmd ex_ircd =
     kline_remove_and_notify ex_externals ex_oper ex_aline
       (emit (map (\<lambda>p. to_cluster (serv_name p) ''UNKLINE''
                     [cstr (user ex_aline), cstr (host_mask ex_aline)])
                (filter isClusterLink (servers ex_ircd))) ex_ircd)"
    using mo_unkline_target [OF h1 g2 g3 h4] g5 by blast
  from h1 h2 h3 h4 h5 h6 g2 g3 g5 e1 e2 r1 r2 show ?thesis by blast
qed

text \<open>C6: without a target server mask, the operator's request goes to every configured
  cluster link, whatever the capabilities and the name of the link: the lines to servers
  that the handler adds are one \<open>to_cluster\<close> event for each cluster link, in the order of
  the list of servers.\<close>

theorem mo_unkline_cluster:
  assumes "HasOFlag source_p OPER_FLAG_UNKLINE"
    and "\<not> EmptyString (parv_at parv 1)"
    and "parse_aline x ''UNKLINE'' source_p (length parv) parv
           \<lparr>add = False, simple_mask = False, user = None, host_mask = None, server = None\<rparr> s =
         (True, aline, s1)"
    and "server aline = None"
  shows "filter is_to_peer (sent (mo_unkline x source_p parv s)) =
           filter is_to_peer (sent s1) @
           map (\<lambda>p. to_cluster (serv_name p) ''UNKLINE''
                  [cstr (user aline), cstr (host_mask aline)])
             (filter isClusterLink (servers s1)) \<and>
         (\<forall>p\<in>set (servers s1). isClusterLink p \<longrightarrow>
            to_cluster (serv_name p) ''UNKLINE'' [cstr (user aline), cstr (host_mask aline)]
              \<in> set (sent (mo_unkline x source_p parv s)))"
proof -
  have eq: "mo_unkline x source_p parv s =
      kline_remove_and_notify x source_p aline (mo_forward source_p aline s1)"
    using assms(4) by (simp add: mo_unkline_valid [OF assms(1,2,3)])
  have a: "filter is_to_peer (sent (mo_unkline x source_p parv s)) =
      filter is_to_peer (sent s1) @
      map (\<lambda>p. to_cluster (serv_name p) ''UNKLINE'' [cstr (user aline), cstr (host_mask aline)])
        (filter isClusterLink (servers s1))"
    using assms(4) by (simp add: eq kran_to_peer mo_forward_def cluster_links_def)
  have b: "\<forall>p\<in>set (servers s1). isClusterLink p \<longrightarrow>
      to_cluster (serv_name p) ''UNKLINE'' [cstr (user aline), cstr (host_mask aline)]
        \<in> set (sent (mo_unkline x source_p parv s))"
    using assms(4) by (auto simp: eq kran_sent mo_forward_def cluster_links_def)
  from a b show ?thesis by blast
qed

theorem mo_unkline_cluster_witness:
  "HasOFlag ex_oper OPER_FLAG_UNKLINE \<and> \<not> EmptyString (parv_at ex_cmd 1) \<and>
   parse_aline ex_externals ''UNKLINE'' ex_oper (length ex_cmd) ex_cmd
     \<lparr>add = False, simple_mask = False, user = None, host_mask = None, server = None\<rparr> ex_ircd =
     (True, ex_aline, ex_ircd) \<and>
   server ex_aline = None \<and>
   filter is_to_peer (sent (mo_unkline ex_externals ex_oper ex_cmd ex_ircd)) =
     filter is_to_peer (sent ex_ircd) @
     map (\<lambda>p. to_cluster (serv_name p) ''UNKLINE'' [cstr (user ex_aline), cstr (host_mask ex_aline)])
       (filter isClusterLink (servers ex_ircd)) \<and>
   ex_leaf2 \<in> set (servers ex_ircd) \<and> isClusterLink ex_leaf2 \<and> capabilities ex_leaf2 = {} \<and>
   to_cluster (serv_name ex_leaf2) ''UNKLINE'' [cstr (user ex_aline), cstr (host_mask ex_aline)]
     \<in> set (sent (mo_unkline ex_externals ex_oper ex_cmd ex_ircd)) \<and>
   filter is_to_peer (sent (mo_unkline ex_externals ex_oper ex_cmd ex_ircd)) =
     [to_cluster ''leaf1.example.net'' ''UNKLINE'' [''baduser'', ''*.bad.example''],
      to_cluster ''leaf2.example.net'' ''UNKLINE'' [''baduser'', ''*.bad.example'']]"
proof -
  have h1: "HasOFlag ex_oper OPER_FLAG_UNKLINE" by code_simp
  have h2: "\<not> EmptyString (parv_at ex_cmd 1)" by code_simp
  have h3: "parse_aline ex_externals ''UNKLINE'' ex_oper (length ex_cmd) ex_cmd
     \<lparr>add = False, simple_mask = False, user = None, host_mask = None, server = None\<rparr> ex_ircd =
     (True, ex_aline, ex_ircd)" by code_simp
  have h4: "server ex_aline = None" by code_simp
  have h5: "ex_leaf2 \<in> set (servers ex_ircd)" by code_simp
  have h6: "isClusterLink ex_leaf2" by code_simp
  have h7: "capabilities ex_leaf2 = {}" by code_simp
  have e1: "filter is_to_peer (sent (mo_unkline ex_externals ex_oper ex_cmd ex_ircd)) =
     [to_cluster ''leaf1.example.net'' ''UNKLINE'' [''baduser'', ''*.bad.example''],
      to_cluster ''leaf2.example.net'' ''UNKLINE'' [''baduser'', ''*.bad.example'']]"
    by code_simp
  note T = mo_unkline_cluster [OF h1 h2 h3 h4]
  from T have r1: "filter is_to_peer (sent (mo_unkline ex_externals ex_oper ex_cmd ex_ircd)) =
     filter is_to_peer (sent ex_ircd) @
     map (\<lambda>p. to_cluster (serv_name p) ''UNKLINE'' [cstr (user ex_aline), cstr (host_mask ex_aline)])
       (filter isClusterLink (servers ex_ircd))"
    by blast
  from T h5 h6 have r2:
    "to_cluster (serv_name ex_leaf2) ''UNKLINE'' [cstr (user ex_aline), cstr (host_mask ex_aline)]
       \<in> set (sent (mo_unkline ex_externals ex_oper ex_cmd ex_ircd))"
    by blast
  from h1 h2 h3 h4 h5 h6 h7 e1 r1 r2 show ?thesis by blast
qed

subsection \<open>The server handler: authorization\<close>

text \<open>C1: a message from a server that passes the framing check and whose target mask
  matches the name of this server is applied to the local table exactly when the source
  is flagged as a service, or some shared entry with the \<open>unkline\<close> action matches the
  source's server name, username and hostname. In both cases the message is forwarded
  first. When neither holds, the table is unchanged, and the only events are the lines
  forwarded to the other servers: no notice and no log entry.\<close>

theorem ms_unkline_authorize:
  assumes "length parv = 4" and "parv ! 3 \<noteq> []" and "match (parv ! 1) (me_name s) = 0"
  shows "ms_unkline x source_p parv s =
           (if HasFlag source_p FLAGS_SERVICE \<or>
               (\<exists>g\<in>set (shared_list s). SHARED_UNKLINE \<in> shared_actions g \<and>
                  match (shared_server g) (servptr_name source_p) = 0 \<and>
                  match (shared_user g) (username source_p) = 0 \<and>
                  match (shared_host g) (host source_p) = 0)
            then kline_remove_and_notify x source_p
                   \<lparr>add = False, simple_mask = False, user = Some (parv ! 2),
                    host_mask = Some (parv ! 3), server = Some (parv ! 1)\<rparr>
                   (sendto_match_servs source_p (parv ! 1) CAPAB_UNKLN
                      [''UNKLINE'', parv ! 1, parv ! 2, parv ! 3] s)
            else sendto_match_servs source_p (parv ! 1) CAPAB_UNKLN
                   [''UNKLINE'', parv ! 1, parv ! 2, parv ! 3] s) \<and>
         (\<not> HasFlag source_p FLAGS_SERVICE \<and>
          \<not> (\<exists>g\<in>set (shared_list s). SHARED_UNKLINE \<in> shared_actions g \<and>
                  match (shared_server g) (servptr_name source_p) = 0 \<and>
                  match (shared_user g) (username source_p) = 0 \<and>
                  match (shared_host g) (host source_p) = 0) \<longrightarrow>
            klines (ms_unkline x source_p parv s) = klines s \<and>
            sent (ms_unkline x source_p parv s) =
              sent s @
              map (\<lambda>p. to_server (serv_name p) [''UNKLINE'', parv ! 1, parv ! 2, parv ! 3])
                (filter (\<lambda>p. match (parv ! 1) (serv_name p) = 0 \<and>
                            CAPAB_UNKLN \<in> capabilities p \<and>
                            from_link source_p \<noteq> Some (serv_name p)) (servers s)))"
proof -
  have eq: "ms_unkline x source_p parv s =
      (if HasFlag source_p FLAGS_SERVICE \<or>
          shared_find (shared_list s) SHARED_UNKLINE (servptr_name source_p)
            (username source_p) (host source_p) \<noteq> None
       then kline_remove_and_notify x source_p (ms_aline parv) (ms_forward source_p parv s)
       else ms_forward source_p parv s)"
    using ms_unkline_valid [OF assms(1,2)] assms(3) by simp
  show ?thesis
    unfolding eq shared_find_iff ms_aline_4 [OF assms(1)] ms_forward_4 [OF assms(1)]
    by (auto simp: match_servs_def)
qed

theorem ms_unkline_authorize_witness:
  "length ex_parv = 4 \<and> ex_parv ! 3 \<noteq> [] \<and> match (ex_parv ! 1) (me_name ex_ircd) = 0 \<and>
   \<not> HasFlag ex_stranger FLAGS_SERVICE \<and>
   \<not> (\<exists>g\<in>set (shared_list ex_ircd). SHARED_UNKLINE \<in> shared_actions g \<and>
         match (shared_server g) (servptr_name ex_stranger) = 0 \<and>
         match (shared_user g) (username ex_stranger) = 0 \<and>
         match (shared_host g) (host ex_stranger) = 0) \<and>
   klines (ms_unkline ex_externals ex_stranger ex_parv ex_ircd) = klines ex_ircd \<and>
   sent (ms_unkline ex_externals ex_stranger ex_parv ex_ircd) =
     sent ex_ircd @
     map (\<lambda>p. to_server (serv_name p) [''UNKLINE'', ex_parv ! 1, ex_parv ! 2, ex_parv ! 3])
       (filter (\<lambda>p. match (ex_parv ! 1) (serv_name p) = 0 \<and> CAPAB_UNKLN \<in> capabilities p \<and>
                   from_link ex_stranger \<noteq> Some (serv_name p)) (servers ex_ircd)) \<and>
   sent (ms_unkline ex_externals ex_stranger ex_parv ex_ircd) =
     [to_server ''far.example.org'' ex_parv] \<and>
   klines (ms_unkline ex_externals ex_remote_oper ex_parv ex_ircd) = [ex_static_ban] \<and>
   klines (ms_unkline ex_externals ex_services ex_parv ex_ircd) = [ex_static_ban]"
proof -
  have h1: "length ex_parv = 4" by code_simp
  have h2: "ex_parv ! 3 \<noteq> []" by code_simp
  have h3: "match (ex_parv ! 1) (me_name ex_ircd) = 0" by code_simp
  have h4: "\<not> HasFlag ex_stranger FLAGS_SERVICE" by code_simp
  have h5: "\<not> (\<exists>g\<in>set (shared_list ex_ircd). SHARED_UNKLINE \<in> shared_actions g \<and>
         match (shared_server g) (servptr_name ex_stranger) = 0 \<and>
         match (shared_user g) (username ex_stranger) = 0 \<and>
         match (shared_host g) (host ex_stranger) = 0)"
    by code_simp
  have e1: "sent (ms_unkline ex_externals ex_stranger ex_parv ex_ircd) =
      [to_server ''far.example.org'' ex_parv]"
    by code_simp
  have e2: "klines (ms_unkline ex_externals ex_remote_oper ex_parv ex_ircd) = [ex_static_ban]"
    by code_simp
  have e3: "klines (ms_unkline ex_externals ex_services ex_parv ex_ircd) = [ex_static_ban]"
    by code_simp
  note T = ms_unkline_authorize [OF h1 h2 h3, of ex_externals ex_stranger]
  from T h4 h5 have r:
    "klines (ms_unkline ex_externals ex_stranger ex_parv ex_ircd) = klines ex_ircd \<and>
     sent (ms_unkline ex_externals ex_stranger ex_parv ex_ircd) =
       sent ex_ircd @
       map (\<lambda>p. to_server (serv_name p) [''UNKLINE'', ex_parv ! 1, ex_parv ! 2, ex_parv ! 3])
         (filter (\<lambda>p. match (ex_parv ! 1) (serv_name p) = 0 \<and> CAPAB_UNKLN \<in> capabilities p \<and>
                     from_link ex_stranger \<noteq> Some (serv_name p)) (servers ex_ircd))"
    by blast
  from h1 h2 h3 h4 h5 r e1 e2 e3 show ?thesis by blast
qed

subsection \<open>Propagation comes first\<close>

text \<open>C4: in both handlers the propagation comes before the local removal. Past the
  checks, the result of a handler is either the state after its propagation step or
  \<open>kline_remove_and_notify\<close> applied to that state; the propagation step leaves the table as
  it was and adds only lines to servers; whatever the handler emits after them goes to
  no server; and the lines of the propagation step are the same for every table, so
  that the outcome of the removal has no part in them.\<close>

theorem propagate_before_remove:
  "(HasOFlag source_p OPER_FLAG_UNKLINE \<and> \<not> EmptyString (parv_at parv 1) \<and>
    parse_aline x ''UNKLINE'' source_p (length parv) parv
      \<lparr>add = False, simple_mask = False, user = None, host_mask = None, server = None\<rparr> s =
    (True, aline, s1) \<longrightarrow>
      (mo_unkline x source_p parv s = mo_forward source_p aline s1 \<or>
       mo_unkline x source_p parv s =
         kline_remove_and_notify x source_p aline (mo_forward source_p aline s1)) \<and>
      (\<exists>L. sent (mo_unkline x source_p parv s) = sent (mo_forward source_p aline s1) @ L \<and>
           filter is_to_peer L = [])) \<and>
   (length parv = 4 \<and> parv ! 3 \<noteq> [] \<longrightarrow>
      (ms_unkline x source_p parv s = ms_forward source_p parv s \<or>
       ms_unkline x source_p parv s =
         kline_remove_and_notify x source_p (ms_aline parv) (ms_forward source_p parv s)) \<and>
      (\<exists>L. sent (ms_unkline x source_p parv s) = sent (ms_forward source_p parv s) @ L \<and>
           filter is_to_peer L = [])) \<and>
   klines (mo_forward source_p aline s1) = klines s1 \<and>
   klines (ms_forward source_p parv s) = klines s \<and>
   (\<exists>P. sent (mo_forward source_p aline s1) = sent s1 @ P \<and> filter is_to_peer P = P) \<and>
   (\<exists>P. sent (ms_forward source_p parv s) = sent s @ P \<and> filter is_to_peer P = P) \<and>
   sent (mo_forward source_p aline (s1\<lparr>klines := k\<rparr>)) = sent (mo_forward source_p aline s1) \<and>
   sent (ms_forward source_p parv (s\<lparr>klines := k\<rparr>)) = sent (ms_forward source_p parv s)"
proof -
  have step: "\<And>R c a F. R = F \<or> R = kline_remove_and_notify x c a F \<Longrightarrow>
      \<exists>L. sent R = sent F @ L \<and> filter is_to_peer L = []"
  proof -
    fix R c a F
    assume "R = F \<or> R = kline_remove_and_notify x c a F"
    then show "\<exists>L. sent R = sent F @ L \<and> filter is_to_peer L = []"
    proof
      assume "R = F"
      then have "sent R = sent F @ [] \<and> filter is_to_peer [] = []" by simp
      then show ?thesis by blast
    next
      assume "R = kline_remove_and_notify x c a F"
      then have "sent R = sent F @ notify_events x c a (fst (kline_remove x a F)) \<and>
          filter is_to_peer (notify_events x c a (fst (kline_remove x a F))) = []"
        by (simp add: kran_sent notify_events_local)
      then show ?thesis by blast
    qed
  qed
  have mo: "HasOFlag source_p OPER_FLAG_UNKLINE \<and> \<not> EmptyString (parv_at parv 1) \<and>
      parse_aline x ''UNKLINE'' source_p (length parv) parv
        \<lparr>add = False, simple_mask = False, user = None, host_mask = None, server = None\<rparr> s =
      (True, aline, s1) \<longrightarrow>
      (mo_unkline x source_p parv s = mo_forward source_p aline s1 \<or>
       mo_unkline x source_p parv s =
         kline_remove_and_notify x source_p aline (mo_forward source_p aline s1))"
    by (auto simp: mo_unkline_valid split: option.splits)
  have ms: "length parv = 4 \<and> parv ! 3 \<noteq> [] \<longrightarrow>
      (ms_unkline x source_p parv s = ms_forward source_p parv s \<or>
       ms_unkline x source_p parv s =
         kline_remove_and_notify x source_p (ms_aline parv) (ms_forward source_p parv s))"
    by (auto simp: ms_unkline_valid)
  have k1: "klines (mo_forward source_p aline s1) = klines s1"
    by (simp add: mo_forward_def split: option.splits)
  have k2: "klines (ms_forward source_p parv s) = klines s"
    by (simp add: ms_forward_def)
  have p1: "\<exists>P. sent (mo_forward source_p aline s1) = sent s1 @ P \<and> filter is_to_peer P = P"
    by (cases "server aline") (simp_all add: mo_forward_def)
  have p2: "\<exists>P. sent (ms_forward source_p parv s) = sent s @ P \<and> filter is_to_peer P = P"
    by (simp add: ms_forward_def)
  have i1: "sent (mo_forward source_p aline (s1\<lparr>klines := k\<rparr>)) =
      sent (mo_forward source_p aline s1)"
    by (simp add: mo_forward_def match_servs_def cluster_links_def split: option.splits)
  have i2: "sent (ms_forward source_p parv (s\<lparr>klines := k\<rparr>)) = sent (ms_forward source_p parv s)"
    by (simp add: ms_forward_def match_servs_def)
  from mo ms step k1 k2 p1 p2 i1 i2 show ?thesis by blast
qed

theorem propagate_before_remove_witness:
  "HasOFlag ex_oper OPER_FLAG_UNKLINE \<and> \<not> EmptyString (parv_at ex_cmd 1) \<and>
   parse_aline ex_externals ''UNKLINE'' ex_oper (length ex_cmd) ex_cmd
     \<lparr>add = False, simple_mask = False, user = None, host_mask = None, server = None\<rparr> ex_ircd =
     (True, ex_aline, ex_ircd) \<and>
   (mo_unkline ex_externals ex_oper ex_cmd ex_ircd = mo_forward ex_oper ex_aline ex_ircd \<or>
    mo_unkline ex_externals ex_oper ex_cmd ex_ircd =
      kline_remove_and_notify ex_externals ex_oper ex_aline (mo_forward ex_oper ex_aline ex_ircd)) \<and>
   (\<exists>L. sent (mo_unkline ex_externals ex_oper ex_cmd ex_ircd) =
           sent (mo_forward ex_oper ex_aline ex_ircd) @ L \<and> filter is_to_peer L = []) \<and>
   length ex_parv = 4 \<and> ex_parv ! 3 \<noteq> [] \<and>
   (ms_unkline ex_externals ex_remote_oper ex_parv ex_ircd = ms_forward ex_remote_oper ex_parv ex_ircd \<or>
    ms_unkline ex_externals ex_remote_oper ex_parv ex_ircd =
      kline_remove_and_notify ex_externals ex_remote_oper (ms_aline ex_parv)
        (ms_forward ex_remote_oper ex_parv ex_ircd)) \<and>
   (\<exists>L. sent (ms_unkline ex_externals ex_remote_oper ex_parv ex_ircd) =
           sent (ms_forward ex_remote_oper ex_parv ex_ircd) @ L \<and> filter is_to_peer L = []) \<and>
   sent (mo_unkline ex_externals ex_oper ex_cmd ex_ircd) =
     [to_cluster ''leaf1.example.net'' ''UNKLINE'' [''baduser'', ''*.bad.example''],
      to_cluster ''leaf2.example.net'' ''UNKLINE'' [''baduser'', ''*.bad.example''],
      one_notice ''alice'' '':K-Line for [baduser@*.bad.example] is removed'',
      realops_notice UMODE_SERVNOTICE L_ALL SEND_NOTICE
        ''alice!alice@staff.example has removed the K-Line for: [baduser@*.bad.example]'',
      log_entry LOG_TYPE_KLINE
        ''alice!alice@staff.example removed K-Line for [baduser@*.bad.example]''] \<and>
   sent (ms_unkline ex_externals ex_remote_oper ex_parv ex_ircd) =
     [to_server ''far.example.org'' ex_parv,
      one_notice ''jdoe'' '':K-Line for [baduser@*.bad.example] is removed'',
      realops_notice UMODE_SERVNOTICE L_ALL SEND_NOTICE
        ''jdoe!jdoe@ws.admin.example has removed the K-Line for: [baduser@*.bad.example]'',
      log_entry LOG_TYPE_KLINE
        ''jdoe!jdoe@ws.admin.example removed K-Line for [baduser@*.bad.example]'']"
proof -
  have h1: "HasOFlag ex_oper OPER_FLAG_UNKLINE" by code_simp
  have h2: "\<not> EmptyString (parv_at ex_cmd 1)" by code_simp
  have h3: "parse_aline ex_externals ''UNKLINE'' ex_oper (length ex_cmd) ex_cmd
     \<lparr>add = False, simple_mask = False, user = None, host_mask = None, server = None\<rparr> ex_ircd =
     (True, ex_aline, ex_ircd)" by code_simp
  have h4: "length ex_parv = 4" by code_simp
  have h5: "ex_parv ! 3 \<noteq> []" by code_simp
  have e1: "sent (mo_unkline ex_externals ex_oper ex_cmd ex_ircd) =
     [to_cluster ''leaf1.example.net'' ''UNKLINE'' [''baduser'', ''*.bad.example''],
      to_cluster ''leaf2.example.net'' ''UNKLINE'' [''baduser'', ''*.bad.example''],
      one_notice ''alice'' '':K-Line for [baduser@*.bad.example] is removed'',
      realops_notice UMODE_SERVNOTICE L_ALL SEND_NOTICE
        ''alice!alice@staff.example has removed the K-Line for: [baduser@*.bad.example]'',
      log_entry LOG_TYPE_KLINE
        ''alice!alice@staff.example removed K-Line for [baduser@*.bad.example]'']"
    by code_simp
  have e2: "sent (ms_unkline ex_externals ex_remote_oper ex_parv ex_ircd) =
     [to_server ''far.example.org'' ex_parv,
      one_notice ''jdoe'' '':K-Line for [baduser@*.bad.example] is removed'',
      realops_notice UMODE_SERVNOTICE L_ALL SEND_NOTICE
        ''jdoe!jdoe@ws.admin.example has removed the K-Line for: [baduser@*.bad.example]'',
      log_entry LOG_TYPE_KLINE
        ''jdoe!jdoe@ws.admin.example removed K-Line for [baduser@*.bad.example]'']"
    by code_simp
  note T1 = propagate_before_remove
    [where source_p = ex_oper and parv = ex_cmd and x = ex_externals and s = ex_ircd and
       aline = ex_aline and ?s1.0 = ex_ircd, THEN conjunct1]
  note T2 = propagate_before_remove
    [where source_p = ex_remote_oper and parv = ex_parv and x = ex_externals and s = ex_ircd,
     THEN conjunct2, THEN conjunct1]
  from T1 h1 h2 h3 have r1:
    "(mo_unkline ex_externals ex_oper ex_cmd ex_ircd = mo_forward ex_oper ex_aline ex_ircd \<or>
      mo_unkline ex_externals ex_oper ex_cmd ex_ircd =
        kline_remove_and_notify ex_externals ex_oper ex_aline (mo_forward ex_oper ex_aline ex_ircd)) \<and>
     (\<exists>L. sent (mo_unkline ex_externals ex_oper ex_cmd ex_ircd) =
             sent (mo_forward ex_oper ex_aline ex_ircd) @ L \<and> filter is_to_peer L = [])"
    by blast
  from T2 h4 h5 have r2:
    "(ms_unkline ex_externals ex_remote_oper ex_parv ex_ircd = ms_forward ex_remote_oper ex_parv ex_ircd \<or>
      ms_unkline ex_externals ex_remote_oper ex_parv ex_ircd =
        kline_remove_and_notify ex_externals ex_remote_oper (ms_aline ex_parv)
          (ms_forward ex_remote_oper ex_parv ex_ircd)) \<and>
     (\<exists>L. sent (ms_unkline ex_externals ex_remote_oper ex_parv ex_ircd) =
             sent (ms_forward ex_remote_oper ex_parv ex_ircd) @ L \<and> filter is_to_peer L = [])"
    by blast
  from h1 h2 h3 h4 h5 r1 r2 e1 e2 show ?thesis by blast
qed

subsection \<open>The line between the two handlers\<close>

text \<open>C10 (as amended): the line that the operator handler sends for a request with a
  target has the four fields that the server handler expects, in the order it expects
  them. For a request whose target, user and host are non-empty, contain no space and
  do not begin with a colon, every line that \<open>mo_unkline\<close> sends to a server carries
  the fields \<open>UNKLINE\<close>, target, user, host; the tokenizer reads the text of that line
  back into the same four parameters; they pass the framing check; and \<open>ms_unkline\<close>
  run on them forwards the line with that target and those fields and, where it
  applies the removal locally, removes that user and host.\<close>

theorem unkline_wire_roundtrip:
  assumes "HasOFlag source_p OPER_FLAG_UNKLINE"
    and "\<not> EmptyString (parv_at parv 1)"
    and "parse_aline x ''UNKLINE'' source_p (length parv) parv
           \<lparr>add = False, simple_mask = False, user = None, host_mask = None, server = None\<rparr> s =
         (True, aline, s1)"
    and "server aline = Some srv" and "user aline = Some u" and "host_mask aline = Some h"
    and "field_ok srv" and "field_ok u" and "field_ok h"
  shows "filter is_to_peer (sent (mo_unkline x source_p parv s)) =
           filter is_to_peer (sent s1) @
           map (\<lambda>p. to_server (serv_name p) [''UNKLINE'', srv, u, h])
             (match_servs source_p srv CAPAB_UNKLN s1) \<and>
         tokenize (wire_line [''UNKLINE'', srv, u, h]) = [''UNKLINE'', srv, u, h] \<and>
         ms_framing_ok (tokenize (wire_line [''UNKLINE'', srv, u, h])) \<and>
         ms_unkline x' source_p' (tokenize (wire_line [''UNKLINE'', srv, u, h])) s' =
           (if match srv (me_name s') \<noteq> 0
            then sendto_match_servs source_p' srv CAPAB_UNKLN [''UNKLINE'', srv, u, h] s'
            else if HasFlag source_p' FLAGS_SERVICE \<or>
                    shared_find (shared_list s') SHARED_UNKLINE (servptr_name source_p')
                      (username source_p') (host source_p') \<noteq> None
            then kline_remove_and_notify x' source_p'
                   \<lparr>add = False, simple_mask = False, user = Some u, host_mask = Some h,
                    server = Some srv\<rparr>
                   (sendto_match_servs source_p' srv CAPAB_UNKLN [''UNKLINE'', srv, u, h] s')
            else sendto_match_servs source_p' srv CAPAB_UNKLN [''UNKLINE'', srv, u, h] s')"
proof -
  have a: "filter is_to_peer (sent (mo_unkline x source_p parv s)) =
      filter is_to_peer (sent s1) @
      map (\<lambda>p. to_server (serv_name p) [''UNKLINE'', srv, u, h])
        (match_servs source_p srv CAPAB_UNKLN s1)"
    using assms(4,5,6)
    by (simp add: mo_unkline_valid [OF assms(1,2,3)] kran_to_peer mo_forward_def unkline_line_def)
  have b: "tokenize (wire_line [''UNKLINE'', srv, u, h]) = [''UNKLINE'', srv, u, h]"
    using assms(7,8,9) by (intro tokenize_wire_line) simp
  have ne: "h \<noteq> []"
    using assms(9) by (cases h) simp_all
  have c: "ms_framing_ok [''UNKLINE'', srv, u, h]"
    using ne by (simp add: ms_framing_ok_iff)
  have d: "ms_unkline x' source_p' [''UNKLINE'', srv, u, h] s' =
      (if match srv (me_name s') \<noteq> 0
       then sendto_match_servs source_p' srv CAPAB_UNKLN [''UNKLINE'', srv, u, h] s'
       else if HasFlag source_p' FLAGS_SERVICE \<or>
               shared_find (shared_list s') SHARED_UNKLINE (servptr_name source_p')
                 (username source_p') (host source_p') \<noteq> None
       then kline_remove_and_notify x' source_p'
              \<lparr>add = False, simple_mask = False, user = Some u, host_mask = Some h,
               server = Some srv\<rparr>
              (sendto_match_servs source_p' srv CAPAB_UNKLN [''UNKLINE'', srv, u, h] s')
       else sendto_match_servs source_p' srv CAPAB_UNKLN [''UNKLINE'', srv, u, h] s')"
    using ne by (simp add: ms_unkline_valid ms_aline_4 ms_forward_4)
  from a b c d show ?thesis by simp
qed

theorem unkline_wire_roundtrip_witness:
  "HasOFlag ex_oper OPER_FLAG_UNKLINE \<and> \<not> EmptyString (parv_at ex_cmd_on 1) \<and>
   parse_aline ex_externals ''UNKLINE'' ex_oper (length ex_cmd_on) ex_cmd_on
     \<lparr>add = False, simple_mask = False, user = None, host_mask = None, server = None\<rparr> ex_ircd =
     (True, ex_aline_on, ex_ircd) \<and>
   server ex_aline_on = Some ''*.org'' \<and> user ex_aline_on = Some ''baduser'' \<and>
   host_mask ex_aline_on = Some ''*.bad.example'' \<and>
   field_ok ''*.org'' \<and> field_ok ''baduser'' \<and> field_ok ''*.bad.example'' \<and>
   filter is_to_peer (sent (mo_unkline ex_externals ex_oper ex_cmd_on ex_ircd)) =
     filter is_to_peer (sent ex_ircd) @
     map (\<lambda>p. to_server (serv_name p) [''UNKLINE'', ''*.org'', ''baduser'', ''*.bad.example''])
       (match_servs ex_oper ''*.org'' CAPAB_UNKLN ex_ircd) \<and>
   tokenize (wire_line [''UNKLINE'', ''*.org'', ''baduser'', ''*.bad.example'']) =
     [''UNKLINE'', ''*.org'', ''baduser'', ''*.bad.example''] \<and>
   ms_framing_ok (tokenize (wire_line [''UNKLINE'', ''*.org'', ''baduser'', ''*.bad.example''])) \<and>
   sent (mo_unkline ex_externals ex_oper ex_cmd_on ex_ircd) =
     [to_server ''far.example.org'' [''UNKLINE'', ''*.org'', ''baduser'', ''*.bad.example'']] \<and>
   wire_line [''UNKLINE'', ''*.org'', ''baduser'', ''*.bad.example''] =
     ''UNKLINE *.org baduser *.bad.example''"
proof -
  have h1: "HasOFlag ex_oper OPER_FLAG_UNKLINE" by code_simp
  have h2: "\<not> EmptyString (parv_at ex_cmd_on 1)" by code_simp
  have h3: "parse_aline ex_externals ''UNKLINE'' ex_oper (length ex_cmd_on) ex_cmd_on
     \<lparr>add = False, simple_mask = False, user = None, host_mask = None, server = None\<rparr> ex_ircd =
     (True, ex_aline_on, ex_ircd)" by code_simp
  have h4: "server ex_aline_on = Some ''*.org''" by code_simp
  have h5: "user ex_aline_on = Some ''baduser''" by code_simp
  have h6: "host_mask ex_aline_on = Some ''*.bad.example''" by code_simp
  have h7: "field_ok ''*.org''" by simp
  have h8: "field_ok ''baduser''" by simp
  have h9: "field_ok ''*.bad.example''" by simp
  have e1: "sent (mo_unkline ex_externals ex_oper ex_cmd_on ex_ircd) =
     [to_server ''far.example.org'' [''UNKLINE'', ''*.org'', ''baduser'', ''*.bad.example'']]"
    by code_simp
  have e2: "wire_line [''UNKLINE'', ''*.org'', ''baduser'', ''*.bad.example''] =
     ''UNKLINE *.org baduser *.bad.example''"
    by simp
  note T = unkline_wire_roundtrip
    [OF h1 h2 h3 h4 h5 h6 h7 h8 h9, of ex_externals ex_remote_oper ex_ircd]
  from T h1 h2 h3 h4 h5 h6 h7 h8 h9 e1 e2 show ?thesis by blast
qed

text \<open>The claim as first stated asks only that the three fields be non-empty. An
  operator sends \<open>UNKLINE baduser@::1 ON *.org\<close>, a line that the tokenizer reads
  into four well-formed parameters. The request has the host \<open>::1\<close>, and the line
  that goes to \<open>far.example.org\<close> has the text \<open>UNKLINE *.org baduser ::1\<close>. The
  receiving server reads four parameters, which pass the framing check, but the host
  among them is \<open>:1\<close>: the colon that began the field was taken as the mark of the
  last parameter.\<close>

theorem unkline_wire_colon_counterexample:
  "tokenize ''UNKLINE baduser@::1 ON *.org'' = [''UNKLINE'', ''baduser@::1'', ''ON'', ''*.org''] \<and>
   parse_aline ex_externals ''UNKLINE'' ex_oper 4 [''UNKLINE'', ''baduser@::1'', ''ON'', ''*.org'']
     \<lparr>add = False, simple_mask = False, user = None, host_mask = None, server = None\<rparr> ex_ircd =
     (True,
      \<lparr>add = False, simple_mask = False, user = Some ''baduser'', host_mask = Some ''::1'',
       server = Some ''*.org''\<rparr>,
      ex_ircd) \<and>
   sent (mo_unkline ex_externals ex_oper [''UNKLINE'', ''baduser@::1'', ''ON'', ''*.org''] ex_ircd) =
     [to_server ''far.example.org'' [''UNKLINE'', ''*.org'', ''baduser'', ''::1'']] \<and>
   wire_line [''UNKLINE'', ''*.org'', ''baduser'', ''::1''] = ''UNKLINE *.org baduser ::1'' \<and>
   tokenize ''UNKLINE *.org baduser ::1'' = [''UNKLINE'', ''*.org'', ''baduser'', '':1''] \<and>
   ms_framing_ok (tokenize ''UNKLINE *.org baduser ::1'') \<and>
   host_mask (ms_aline (tokenize ''UNKLINE *.org baduser ::1'')) = Some '':1''"
  by code_simp

end
